theory Spec2Isabelle
  imports Complex_Main
begin

section \<open>Shared data of the route handlers\<close>

text \<open>
  The backend is a set of Express route handlers over four PostgreSQL tables. Each handler
  is modelled as a function from the request and the tables to the tables after the
  request and the response: \<open>Inl\<close> of a status code and an error message for every
  \<^verbatim>\<open>return res.status(..).json({ error: .. })\<close>, \<open>Inr\<close> of the payload otherwise.
  The \<^verbatim>\<open>catch\<close> blocks (a failing database connection, answered with 500) are not
  modelled.

  Primary keys (UUIDs) are natural numbers. Timestamps are milliseconds since the epoch.
  Calendar dates are year, month and day, as the \<^verbatim>\<open>YYYY-MM-DD\<close> strings the handlers
  exchange with the database; a date is taken to be a day of the calendar, and
  \<open>date_lt\<close> is then the order of the instants that \<^verbatim>\<open>new Date(..)\<close> reads from two
  such strings. The invoice creation, whose number depends on how a date string is read,
  takes its dates as \<open>iso8601\<close> readings instead. Monetary amounts are rationals. The
  payment handler is given twice: \<open>put_payment\<close> computes with them exactly, and
  \<open>put_payment_with\<close> takes the rounding of \<^verbatim>\<open>parseFloat\<close>, of the sums and of the
  stored column as parameters.
\<close>

type_synonym uuid = nat
type_synonym timestamp = int

record date =
  d_year :: nat
  d_month :: nat
  d_day :: nat

definition date_lt :: "date \<Rightarrow> date \<Rightarrow> bool" where
  "date_lt a b =
     (d_year a < d_year b \<or>
      (d_year a = d_year b \<and>
       (d_month a < d_month b \<or> (d_month a = d_month b \<and> d_day a < d_day b))))"

text \<open>
  A request field as express-validator sees it: not sent (\<^verbatim>\<open>undefined\<close>), sent but
  refused by the syntactic validator of the chain (\<^verbatim>\<open>isUUID\<close>, \<^verbatim>\<open>isISO8601\<close>,
  \<^verbatim>\<open>isNumeric\<close>, \<^verbatim>\<open>isIn\<close>, \<^verbatim>\<open>isBoolean\<close>), or sent and well formed, with its value
  (for a string field, the value after the \<^verbatim>\<open>trim\<close> sanitizer).
\<close>

datatype 'a field = Absent | Malformed | Present 'a

fun optional :: "('a \<Rightarrow> bool) \<Rightarrow> 'a field \<Rightarrow> bool" where
  "optional ok Absent = True"
| "optional ok Malformed = False"
| "optional ok (Present v) = ok v"

fun required :: "('a \<Rightarrow> bool) \<Rightarrow> 'a field \<Rightarrow> bool" where
  "required ok (Present v) = ok v"
| "required ok _ = False"

fun or_else :: "'a field \<Rightarrow> 'a \<Rightarrow> 'a" where
  "or_else (Present v) d = v"
| "or_else _ d = d"

fun is_present :: "'a field \<Rightarrow> bool" where
  "is_present (Present v) = True"
| "is_present _ = False"

text \<open>
  An error answer: the status code and the \<^verbatim>\<open>error\<close> string of the body, and the
  \<^verbatim>\<open>details\<close> array, which only the answer to a failed validation carries
  (\<^verbatim>\<open>details: errors.array()\<close>). An entry of \<^verbatim>\<open>errors.array()\<close> is kept by its location,
  its path (the name of the field) and its message; its value, the raw text that was sent,
  is not kept, since a request is modelled by its parsed fields.
\<close>

record validation_error =
  location :: string
  path :: string
  msg :: string

record failure =
  status_code :: nat
  error :: string
  details :: "validation_error list option"

type_synonym 'a response = "failure + 'a"

definition reject :: "nat \<Rightarrow> string \<Rightarrow> 'a response" where
  "reject c m = Inl \<lparr>status_code = c, error = m, details = None\<rparr>"

definition validation_failed :: "validation_error list \<Rightarrow> 'a response" where
  "validation_failed errors =
     Inl \<lparr>status_code = 400, error = ''Validation failed'', details = Some errors\<rparr>"

text \<open>
  One validator of a chain: no entry when it accepts the field, its entry otherwise. Every
  validator of a chain runs, so a chain of two validators can add two entries. A validator
  without \<^verbatim>\<open>withMessage\<close> reports \<^verbatim>\<open>Invalid value\<close>.
\<close>

definition check :: "string \<Rightarrow> string \<Rightarrow> string \<Rightarrow> bool \<Rightarrow> validation_error list" where
  "check loc p m ok = (if ok then [] else [\<lparr>location = loc, path = p, msg = m\<rparr>])"

subsection \<open>Number formatting\<close>

definition digit_char :: "nat \<Rightarrow> char" where
  "digit_char n = ''0123456789'' ! (n mod 10)"

text \<open>\<^verbatim>\<open>String(n)\<close> for a non-negative integer.\<close>

function string_of_nat :: "nat \<Rightarrow> string" where
  "string_of_nat n =
     (if n < 10 then [digit_char n] else string_of_nat (n div 10) @ [digit_char n])"
  by pat_completeness auto
termination
  by (relation "measure id") auto

declare string_of_nat.simps [simp del]

definition string_of_int :: "int \<Rightarrow> string" where
  "string_of_int i = (if i < 0 then ''-'' @ string_of_nat (nat (- i)) else string_of_nat (nat i))"

definition padStart :: "nat \<Rightarrow> char \<Rightarrow> string \<Rightarrow> string" where
  "padStart n c s = replicate (n - length s) c @ s"

text \<open>
  \<^verbatim>\<open>x.toFixed(2)\<close> for the value \<open>x\<close> of a double: the sign, then the integer nearest to
  \<open>100 * |x|\<close> (the larger one on a tie) written with two decimals. JavaScript rounds the
  double, so for a decimal that is not a double (1.005) the result is that of the double
  nearest to it, not that of the decimal.
\<close>

definition hundredths :: "rat \<Rightarrow> nat" where
  "hundredths x = nat \<lfloor>\<bar>x\<bar> * 100 + 1 / 2\<rfloor>"

definition toFixed2 :: "rat \<Rightarrow> string" where
  "toFixed2 x =
     (let n = hundredths x
      in (if x < 0 then ''-'' else []) @
         string_of_nat (n div 100) @ ''.'' @ padStart 2 CHR ''0'' (string_of_nat (n mod 100)))"

text \<open>The number \<^verbatim>\<open>parseFloat(x.toFixed(2))\<close> reads back.\<close>

definition parse_toFixed2 :: "rat \<Rightarrow> rat" where
  "parse_toFixed2 x = (if x < 0 then - 1 else 1) * of_nat (hundredths x) / 100"

subsection \<open>Users and roles (middleware/auth.js)\<close>

record user_row =
  user_id :: uuid
  email :: string
  username :: string
  name :: string
  roles :: "string list"
  approved :: bool

definition hasRole :: "string list \<Rightarrow> string \<Rightarrow> bool" where
  "hasRole userRoles requiredRole = (requiredRole \<in> set userRoles)"

definition canAccessProjects :: "string list \<Rightarrow> bool" where
  "canAccessProjects userRoles =
     (hasRole userRoles ''admin'' \<or> hasRole userRoles ''madmin'' \<or> hasRole userRoles ''user'')"

definition canAccessBilling :: "string list \<Rightarrow> bool" where
  "canAccessBilling userRoles = (hasRole userRoles ''admin'' \<or> hasRole userRoles ''madmin'')"

definition canDeleteProjects :: "string list \<Rightarrow> bool" where
  "canDeleteProjects userRoles = hasRole userRoles ''admin''"

text \<open>The test \<^verbatim>\<open>roles.includes('admin') || roles.includes('madmin')\<close> of the project routes.\<close>

definition privileged :: "user_row \<Rightarrow> bool" where
  "privileged u = (''admin'' \<in> set (roles u) \<or> ''madmin'' \<in> set (roles u))"

subsection \<open>Tables\<close>

datatype invoice_status = Pending | Paid | Overdue | Cancelled

fun invoice_status_name :: "invoice_status \<Rightarrow> string" where
  "invoice_status_name Pending = ''pending''"
| "invoice_status_name Paid = ''paid''"
| "invoice_status_name Overdue = ''overdue''"
| "invoice_status_name Cancelled = ''cancelled''"

record invoice =
  inv_id :: uuid
  number :: string
  client_id :: uuid
  project_id :: "uuid option"
  amount :: rat
  description :: "string option"
  inv_date :: date
  due_date :: date
  status :: invoice_status
  paid_amount :: rat
  inv_created_at :: timestamp
  inv_updated_at :: timestamp

datatype project_status = ProjectPending | Ongoing | Completed

fun project_status_name :: "project_status \<Rightarrow> string" where
  "project_status_name ProjectPending = ''pending''"
| "project_status_name Ongoing = ''ongoing''"
| "project_status_name Completed = ''completed''"

record project =
  proj_id :: uuid
  proj_name :: string
  proj_description :: "string option"
  start_date :: date
  end_date :: "date option"
  proj_status :: project_status
  created_by :: uuid
  proj_created_at :: timestamp
  proj_updated_at :: timestamp

record time_entry =
  te_id :: uuid
  te_user_id :: uuid
  clock_in :: timestamp
  clock_out :: "timestamp option"
  te_date :: date
  te_created_at :: timestamp
  te_updated_at :: timestamp

record db =
  users :: "user_row list"
  projects :: "project list"
  invoices :: "invoice list"
  time_entries :: "time_entry list"

text \<open>\<^verbatim>\<open>SELECT .. WHERE id = $1\<close> followed by \<^verbatim>\<open>rows[0]\<close>, and \<^verbatim>\<open>UPDATE .. WHERE id = $n\<close>.\<close>

definition find_user :: "user_row list \<Rightarrow> uuid \<Rightarrow> user_row option" where
  "find_user us i = find (\<lambda>u. user_id u = i) us"

definition find_project :: "project list \<Rightarrow> uuid \<Rightarrow> project option" where
  "find_project ps i = find (\<lambda>p. proj_id p = i) ps"

definition find_invoice :: "invoice list \<Rightarrow> uuid \<Rightarrow> invoice option" where
  "find_invoice is i = find (\<lambda>r. inv_id r = i) is"

definition update_invoice :: "uuid \<Rightarrow> (invoice \<Rightarrow> invoice) \<Rightarrow> invoice list \<Rightarrow> invoice list" where
  "update_invoice i f is = map (\<lambda>r. if inv_id r = i then f r else r) is"

definition update_project :: "uuid \<Rightarrow> (project \<Rightarrow> project) \<Rightarrow> project list \<Rightarrow> project list" where
  "update_project i f ps = map (\<lambda>p. if proj_id p = i then f p else p) ps"

section \<open>Invoices (routes/invoices.js)\<close>

text \<open>Every invoice route runs behind the billing gate installed with \<^verbatim>\<open>router.use\<close>.\<close>

definition billing_denied :: "'a response" where
  "billing_denied = reject 403 ''Access denied. Billing access requires admin or madmin role.''"

subsection \<open>PUT /api/invoices/:id/payment\<close>

text \<open>
  \<open>markAsPaid\<close> holds the truthiness of the submitted value, which is what the handler
  tests; it is \<^verbatim>\<open>false\<close> when the field is not sent.
\<close>

record payment_request =
  pay_id :: "uuid field"
  pay_amount :: "rat field"
  markAsPaid :: "bool field"

record payment_summary =
  pay_message :: string
  pay_invoice :: invoice
  payment_amount :: rat
  newBalance :: rat
  totalPaid :: rat

definition payment_valid :: "payment_request \<Rightarrow> bool" where
  "payment_valid req =
     (required (\<lambda>i. True) (pay_id req) \<and>
      required (\<lambda>a. 1 / 100 \<le> a) (pay_amount req) \<and>
      optional (\<lambda>b. True) (markAsPaid req))"

text \<open>
  The validators of the route, in their order; \<open>payment_valid\<close> says that all of them
  accept the request, which is \<^verbatim>\<open>errors.isEmpty()\<close> (\<open>payment_errors_empty\<close>).
\<close>

definition payment_errors :: "payment_request \<Rightarrow> validation_error list" where
  "payment_errors req =
     check ''params'' ''id'' ''Invalid invoice ID'' (required (\<lambda>i. True) (pay_id req)) @
     check ''body'' ''amount'' ''Invalid value'' (required (\<lambda>a. True) (pay_amount req)) @
     check ''body'' ''amount'' ''Payment amount must be a positive number''
       (required (\<lambda>a. 1 / 100 \<le> a) (pay_amount req)) @
     check ''body'' ''markAsPaid'' ''markAsPaid must be a boolean''
       (optional (\<lambda>b. True) (markAsPaid req))"

text \<open>
  The branch on \<^verbatim>\<open>markAsPaid\<close> that assigns \<^verbatim>\<open>newPaidAmount\<close> and \<^verbatim>\<open>newStatus\<close>,
  or answers 400 with the remaining balance.
\<close>

definition new_payment_state ::
  "bool \<Rightarrow> rat \<Rightarrow> rat \<Rightarrow> rat \<Rightarrow> (rat \<times> invoice_status) response" where
  "new_payment_state mark currentPaidAmount invoiceAmount paymentAmount =
     (if mark then Inr (invoiceAmount, Paid)
      else
        let newPaidAmount = currentPaidAmount + paymentAmount
        in
          if newPaidAmount > invoiceAmount
          then reject 400
                 (''Payment amount exceeds remaining balance. Remaining: $'' @
                  toFixed2 (invoiceAmount - currentPaidAmount))
          else Inr (newPaidAmount, if newPaidAmount \<ge> invoiceAmount then Paid else Pending))"

definition store_payment :: "timestamp \<Rightarrow> rat \<Rightarrow> invoice_status \<Rightarrow> invoice \<Rightarrow> invoice" where
  "store_payment now newPaidAmount newStatus r =
     r\<lparr>paid_amount := newPaidAmount, status := newStatus, inv_updated_at := now\<rparr>"

definition put_payment ::
  "user_row \<Rightarrow> timestamp \<Rightarrow> payment_request \<Rightarrow> db \<Rightarrow> db \<times> payment_summary response" where
  "put_payment caller now req d =
     (if \<not> canAccessBilling (roles caller) then (d, billing_denied)
      else if payment_errors req \<noteq> [] then (d, validation_failed (payment_errors req))
      else
        (case (pay_id req, pay_amount req) of
           (Present i, Present paymentAmount) \<Rightarrow>
             (case find_invoice (invoices d) i of
                None \<Rightarrow> (d, reject 404 ''Invoice not found'')
              | Some invoice \<Rightarrow>
                  if status invoice = Cancelled
                  then (d, reject 400 ''Cannot add payment to cancelled invoice'')
                  else
                    let mark = or_else (markAsPaid req) False;
                        currentPaidAmount = paid_amount invoice;
                        invoiceAmount = amount invoice
                    in
                      (case new_payment_state mark currentPaidAmount invoiceAmount paymentAmount of
                         Inl e \<Rightarrow> (d, Inl e)
                       | Inr (newPaidAmount, newStatus) \<Rightarrow>
                           (d\<lparr>invoices :=
                                update_invoice i (store_payment now newPaidAmount newStatus)
                                  (invoices d)\<rparr>,
                            Inr \<lparr>pay_message =
                                   (if mark then ''Invoice marked as paid''
                                    else ''Payment added successfully''),
                                 pay_invoice = store_payment now newPaidAmount newStatus invoice,
                                 payment_amount =
                                   (if mark then invoiceAmount - currentPaidAmount
                                    else paymentAmount),
                                 newBalance = invoiceAmount - newPaidAmount,
                                 totalPaid = newPaidAmount\<rparr>)))
         | _ \<Rightarrow> (d, validation_failed (payment_errors req))))"


text \<open>
  The handler with the arithmetic of its numbers made explicit. A JavaScript number is a
  double, and a double is a rational number: \<open>parseFloat\<close> is the double that
  \<^verbatim>\<open>parseFloat\<close> reads from the decimal text of a column or of the request, \<open>js_add\<close> and
  \<open>js_sub\<close> are the rounded \<^verbatim>\<open>+\<close> and \<^verbatim>\<open>-\<close> of two doubles, \<^verbatim>\<open>>\<close> and \<^verbatim>\<open>>=\<close> compare
  the values, and \<^verbatim>\<open>toFixed(2)\<close> writes the value of the double. \<open>to_column\<close> is the value
  that the fixed-precision column \<^verbatim>\<open>paid_amount\<close> keeps of a number it is sent. The four
  are parameters, so that a property of \<open>put_payment_with\<close> holds whatever the rounding.
  \<open>exact\<close> is the arithmetic that does not round: \<open>put_payment\<close> is the handler with
  it (\<open>put_payment_with_exact\<close>).
\<close>

record arithmetic =
  parseFloat :: "rat \<Rightarrow> rat"
  js_add :: "rat \<Rightarrow> rat \<Rightarrow> rat"
  js_sub :: "rat \<Rightarrow> rat \<Rightarrow> rat"
  to_column :: "rat \<Rightarrow> rat"

definition exact :: arithmetic where
  "exact = \<lparr>parseFloat = (\<lambda>x. x), js_add = (+), js_sub = (-), to_column = (\<lambda>x. x)\<rparr>"

definition new_payment_state_with ::
  "arithmetic \<Rightarrow> bool \<Rightarrow> rat \<Rightarrow> rat \<Rightarrow> rat \<Rightarrow> (rat \<times> invoice_status) response" where
  "new_payment_state_with ar mark currentPaidAmount invoiceAmount paymentAmount =
     (if mark then Inr (invoiceAmount, Paid)
      else
        let newPaidAmount = js_add ar currentPaidAmount paymentAmount
        in
          if newPaidAmount > invoiceAmount
          then reject 400
                 (''Payment amount exceeds remaining balance. Remaining: $'' @
                  toFixed2 (js_sub ar invoiceAmount currentPaidAmount))
          else Inr (newPaidAmount, if newPaidAmount \<ge> invoiceAmount then Paid else Pending))"

definition store_payment_with ::
  "arithmetic \<Rightarrow> timestamp \<Rightarrow> rat \<Rightarrow> invoice_status \<Rightarrow> invoice \<Rightarrow> invoice" where
  "store_payment_with ar now newPaidAmount newStatus r =
     r\<lparr>paid_amount := to_column ar newPaidAmount, status := newStatus, inv_updated_at := now\<rparr>"

definition put_payment_with ::
  "arithmetic \<Rightarrow> user_row \<Rightarrow> timestamp \<Rightarrow> payment_request \<Rightarrow> db \<Rightarrow>
     db \<times> payment_summary response" where
  "put_payment_with ar caller now req d =
     (if \<not> canAccessBilling (roles caller) then (d, billing_denied)
      else if payment_errors req \<noteq> [] then (d, validation_failed (payment_errors req))
      else
        (case (pay_id req, pay_amount req) of
           (Present i, Present amt) \<Rightarrow>
             (case find_invoice (invoices d) i of
                None \<Rightarrow> (d, reject 404 ''Invoice not found'')
              | Some invoice \<Rightarrow>
                  if status invoice = Cancelled
                  then (d, reject 400 ''Cannot add payment to cancelled invoice'')
                  else
                    let mark = or_else (markAsPaid req) False;
                        currentPaidAmount = parseFloat ar (paid_amount invoice);
                        invoiceAmount = parseFloat ar (amount invoice);
                        paymentAmount = parseFloat ar amt
                    in
                      (case new_payment_state_with ar mark currentPaidAmount invoiceAmount
                              paymentAmount of
                         Inl e \<Rightarrow> (d, Inl e)
                       | Inr (newPaidAmount, newStatus) \<Rightarrow>
                           (d\<lparr>invoices :=
                                update_invoice i (store_payment_with ar now newPaidAmount newStatus)
                                  (invoices d)\<rparr>,
                            Inr \<lparr>pay_message =
                                   (if mark then ''Invoice marked as paid''
                                    else ''Payment added successfully''),
                                 pay_invoice =
                                   store_payment_with ar now newPaidAmount newStatus invoice,
                                 payment_amount =
                                   (if mark then js_sub ar invoiceAmount currentPaidAmount
                                    else paymentAmount),
                                 newBalance = js_sub ar invoiceAmount newPaidAmount,
                                 totalPaid = newPaidAmount\<rparr>)))
         | _ \<Rightarrow> (d, validation_failed (payment_errors req))))"

subsection \<open>POST /api/invoices\<close>

text \<open>
  A date string that \<^verbatim>\<open>isISO8601\<close> accepts, by what its readers make of it. The handler
  reads it with \<^verbatim>\<open>new Date(..)\<close>: \<open>js_time\<close> is the instant (\<^verbatim>\<open>getTime()\<close>, which
  \<^verbatim>\<open><\<close> compares) and \<open>js_full_year\<close> is \<^verbatim>\<open>getFullYear()\<close>, the year of that instant in
  the time zone of the server. The database reads the same string into the date column:
  \<open>pg_date\<close> is the date it stores. For \<^verbatim>\<open>2024-03-01\<close> on a server in UTC the three
  agree; for a string with a time and an offset they need not. A string that the validator
  accepts and \<^verbatim>\<open>new Date(..)\<close> cannot read (an invalid date) is not modelled.
\<close>

record iso8601 =
  js_time :: int
  js_full_year :: nat
  pg_date :: date

text \<open>
  The readings of a date-only string \<^verbatim>\<open>YYYY-MM-DD\<close> at a calendar date, on a server in
  UTC: \<^verbatim>\<open>new Date(..)\<close> is midnight UTC of that day, and the database stores the date.
  \<open>days_from_civil\<close> counts the days from 1970-01-01 in the proleptic Gregorian calendar.
\<close>

definition days_from_civil :: "date \<Rightarrow> int" where
  "days_from_civil dt =
     (let y = int (d_year dt) - (if d_month dt \<le> 2 then 1 else 0);
          era = y div 400;
          yoe = y - era * 400;
          doy = (153 * (int (d_month dt) + (if d_month dt > 2 then - 3 else 9)) + 2) div 5 +
                int (d_day dt) - 1;
          doe = yoe * 365 + yoe div 4 - yoe div 100 + doy
      in era * 146097 + doe - 719468)"

definition date_only :: "date \<Rightarrow> iso8601" where
  "date_only dt =
     \<lparr>js_time = days_from_civil dt * 86400000, js_full_year = d_year dt, pg_date = dt\<rparr>"

record invoice_create =
  new_client_id :: "uuid field"
  new_project_id :: "uuid field"
  new_amount :: "rat field"
  new_description :: "string field"
  new_date :: "iso8601 field"
  new_due_date :: "iso8601 field"

record invoice_created =
  created_message :: string
  created_invoice :: invoice
  created_client_name :: string
  created_client_email :: string

definition invoice_create_valid :: "invoice_create \<Rightarrow> bool" where
  "invoice_create_valid req =
     (required (\<lambda>i. True) (new_client_id req) \<and>
      optional (\<lambda>i. True) (new_project_id req) \<and>
      required (\<lambda>a. 1 / 100 \<le> a) (new_amount req) \<and>
      optional (\<lambda>s. length s \<le> 5000) (new_description req) \<and>
      required (\<lambda>x. True) (new_date req) \<and>
      required (\<lambda>x. True) (new_due_date req))"

definition invoice_create_errors :: "invoice_create \<Rightarrow> validation_error list" where
  "invoice_create_errors req =
     check ''body'' ''client_id'' ''Valid client ID is required''
       (required (\<lambda>i. True) (new_client_id req)) @
     check ''body'' ''project_id'' ''Project ID must be valid UUID''
       (optional (\<lambda>i. True) (new_project_id req)) @
     check ''body'' ''amount'' ''Invalid value'' (required (\<lambda>a. True) (new_amount req)) @
     check ''body'' ''amount'' ''Amount must be a positive number''
       (required (\<lambda>a. 1 / 100 \<le> a) (new_amount req)) @
     check ''body'' ''description'' ''Description must be less than 5000 characters''
       (optional (\<lambda>s. length s \<le> 5000) (new_description req)) @
     check ''body'' ''date'' ''Valid invoice date is required (YYYY-MM-DD)''
       (required (\<lambda>x. True) (new_date req)) @
     check ''body'' ''due_date'' ''Valid due date is required (YYYY-MM-DD)''
       (required (\<lambda>x. True) (new_due_date req))"

fun nullable :: "'a field \<Rightarrow> 'a option" where
  "nullable (Present v) = Some v"
| "nullable _ = None"

text \<open>\<^verbatim>\<open>SELECT COUNT(*) FROM invoices WHERE EXTRACT(YEAR FROM date) = $1\<close>.\<close>

definition count_in_year :: "nat \<Rightarrow> invoice list \<Rightarrow> nat" where
  "count_in_year year rows = length (filter (\<lambda>r. d_year (inv_date r) = year) rows)"

definition invoiceNumber :: "nat \<Rightarrow> nat \<Rightarrow> string" where
  "invoiceNumber year invoiceCount =
     string_of_nat year @ padStart 4 CHR ''0'' (string_of_nat invoiceCount)"

text \<open>
  \<open>new_id\<close> and \<open>now\<close> are the primary key and the timestamps the database gives the
  inserted row by its column defaults. The year of the number is
  \<^verbatim>\<open>new Date(date).getFullYear()\<close>; the count query compares it with the year of the
  stored date of each invoice, \<^verbatim>\<open>EXTRACT(YEAR FROM date)\<close>; the row is inserted with the date
  string, which the database stores as \<open>pg_date\<close>.
\<close>

definition post_invoice ::
  "user_row \<Rightarrow> uuid \<Rightarrow> timestamp \<Rightarrow> invoice_create \<Rightarrow> db \<Rightarrow> db \<times> invoice_created response" where
  "post_invoice caller new_id now req d =
     (if \<not> canAccessBilling (roles caller) then (d, billing_denied)
      else if invoice_create_errors req \<noteq> []
      then (d, validation_failed (invoice_create_errors req))
      else
        (case (new_client_id req, new_amount req, new_date req, new_due_date req) of
           (Present cid, Present amt, Present dt, Present due) \<Rightarrow>
             (case find_user (users d) cid of
                None \<Rightarrow> (d, reject 400 ''Client not found'')
              | Some client \<Rightarrow>
                  if \<not> approved client
                  then (d, reject 400 ''Cannot create invoice for unapproved client'')
                  else if (case new_project_id req of
                             Present pid \<Rightarrow> find_project (projects d) pid = None
                           | _ \<Rightarrow> False)
                  then (d, reject 400 ''Project not found'')
                  else if js_time due < js_time dt
                  then (d, reject 400 ''Due date cannot be before invoice date'')
                  else
                    let year = js_full_year dt;
                        invoiceCount = count_in_year year (invoices d) + 1;
                        newInvoice =
                          \<lparr>inv_id = new_id,
                           number = invoiceNumber year invoiceCount,
                           client_id = cid,
                           project_id = nullable (new_project_id req),
                           amount = amt,
                           description = nullable (new_description req),
                           inv_date = pg_date dt,
                           due_date = pg_date due,
                           status = Pending,
                           paid_amount = 0,
                           inv_created_at = now,
                           inv_updated_at = now\<rparr>
                    in
                      (d\<lparr>invoices := invoices d @ [newInvoice]\<rparr>,
                       Inr \<lparr>created_message = ''Invoice created successfully'',
                            created_invoice = newInvoice,
                            created_client_name = name client,
                            created_client_email = email client\<rparr>))
         | _ \<Rightarrow> (d, validation_failed (invoice_create_errors req))))"

subsection \<open>PUT /api/invoices/:id\<close>

record invoice_update =
  upd_id :: "uuid field"
  upd_client_id :: "uuid field"
  upd_project_id :: "uuid field"
  upd_amount :: "rat field"
  upd_description :: "string field"
  upd_date :: "date field"
  upd_due_date :: "date field"
  upd_status :: "invoice_status field"

record invoice_updated =
  updated_message :: string
  updated_invoice :: invoice
  updated_client_name :: "string option"
  updated_client_email :: "string option"
  updated_project_name :: "string option"

definition invoice_update_valid :: "invoice_update \<Rightarrow> bool" where
  "invoice_update_valid req =
     (required (\<lambda>i. True) (upd_id req) \<and>
      optional (\<lambda>i. True) (upd_client_id req) \<and>
      optional (\<lambda>i. True) (upd_project_id req) \<and>
      optional (\<lambda>a. 1 / 100 \<le> a) (upd_amount req) \<and>
      optional (\<lambda>s. length s \<le> 5000) (upd_description req) \<and>
      optional (\<lambda>x. True) (upd_date req) \<and>
      optional (\<lambda>x. True) (upd_due_date req) \<and>
      optional (\<lambda>x. True) (upd_status req))"

definition invoice_update_errors :: "invoice_update \<Rightarrow> validation_error list" where
  "invoice_update_errors req =
     check ''params'' ''id'' ''Invalid invoice ID'' (required (\<lambda>i. True) (upd_id req)) @
     check ''body'' ''client_id'' ''Client ID must be valid UUID''
       (optional (\<lambda>i. True) (upd_client_id req)) @
     check ''body'' ''project_id'' ''Project ID must be valid UUID''
       (optional (\<lambda>i. True) (upd_project_id req)) @
     check ''body'' ''amount'' ''Invalid value'' (optional (\<lambda>a. True) (upd_amount req)) @
     check ''body'' ''amount'' ''Amount must be a positive number''
       (optional (\<lambda>a. 1 / 100 \<le> a) (upd_amount req)) @
     check ''body'' ''description'' ''Description must be less than 5000 characters''
       (optional (\<lambda>s. length s \<le> 5000) (upd_description req)) @
     check ''body'' ''date'' ''Invoice date must be valid (YYYY-MM-DD)''
       (optional (\<lambda>x. True) (upd_date req)) @
     check ''body'' ''due_date'' ''Due date must be valid (YYYY-MM-DD)''
       (optional (\<lambda>x. True) (upd_due_date req)) @
     check ''body'' ''status'' ''Status must be pending, paid, overdue, or cancelled''
       (optional (\<lambda>x. True) (upd_status req))"

text \<open>
  The \<^verbatim>\<open>SET\<close> list the loop over \<^verbatim>\<open>Object.entries(updates)\<close> builds: each of the seven
  columns that was sent, and \<^verbatim>\<open>updated_at\<close>. No other column is written.
\<close>

definition invoice_update_fields :: "invoice_update \<Rightarrow> nat" where
  "invoice_update_fields req =
     length (filter id
       [is_present (upd_client_id req), is_present (upd_project_id req),
        is_present (upd_amount req), is_present (upd_description req),
        is_present (upd_date req), is_present (upd_due_date req),
        is_present (upd_status req)])"

definition set_invoice_fields :: "timestamp \<Rightarrow> invoice_update \<Rightarrow> invoice \<Rightarrow> invoice" where
  "set_invoice_fields now req r =
     r\<lparr>client_id := or_else (upd_client_id req) (client_id r),
       project_id := (case upd_project_id req of Present p \<Rightarrow> Some p | _ \<Rightarrow> project_id r),
       amount := or_else (upd_amount req) (amount r),
       description := (case upd_description req of Present s \<Rightarrow> Some s | _ \<Rightarrow> description r),
       inv_date := or_else (upd_date req) (inv_date r),
       due_date := or_else (upd_due_date req) (due_date r),
       status := or_else (upd_status req) (status r),
       inv_updated_at := now\<rparr>"

definition put_invoice ::
  "user_row \<Rightarrow> timestamp \<Rightarrow> invoice_update \<Rightarrow> db \<Rightarrow> db \<times> invoice_updated response" where
  "put_invoice caller now req d =
     (if \<not> canAccessBilling (roles caller) then (d, billing_denied)
      else if invoice_update_errors req \<noteq> []
      then (d, validation_failed (invoice_update_errors req))
      else
        (case upd_id req of
           Present i \<Rightarrow>
             (case find_invoice (invoices d) i of
                None \<Rightarrow> (d, reject 404 ''Invoice not found'')
              | Some invoice \<Rightarrow>
                  if (case upd_client_id req of
                        Present cid \<Rightarrow>
                          (case find_user (users d) cid of
                             None \<Rightarrow> True
                           | Some c \<Rightarrow> \<not> approved c)
                      | _ \<Rightarrow> False)
                  then (d, reject 400 ''Invalid or unapproved client'')
                  else if (case upd_project_id req of
                             Present pid \<Rightarrow> find_project (projects d) pid = None
                           | _ \<Rightarrow> False)
                  then (d, reject 400 ''Project not found'')
                  else if invoice_update_fields req = 0
                  then (d, reject 400 ''No valid fields to update'')
                  else
                    let updatedInvoice = set_invoice_fields now req invoice;
                        c = find_user (users d) (client_id updatedInvoice);
                        p = (case project_id updatedInvoice of
                               None \<Rightarrow> None
                             | Some pid \<Rightarrow> find_project (projects d) pid)
                    in
                      (d\<lparr>invoices := update_invoice i (set_invoice_fields now req) (invoices d)\<rparr>,
                       Inr \<lparr>updated_message = ''Invoice updated successfully'',
                            updated_invoice = updatedInvoice,
                            updated_client_name = map_option name c,
                            updated_client_email = map_option email c,
                            updated_project_name = map_option proj_name p\<rparr>))
         | _ \<Rightarrow> (d, validation_failed (invoice_update_errors req))))"

subsection \<open>GET /api/invoices\<close>

text \<open>
  The query string: filters are applied when the value is truthy (sent and not empty),
  \<^verbatim>\<open>limit\<close> and \<^verbatim>\<open>offset\<close> default to 50 and 0. The pattern matching of \<^verbatim>\<open>ILIKE\<close> belongs
  to the database and is a parameter of the handler.
\<close>

record invoice_query =
  q_status :: "string option"
  q_client_id :: "uuid option"
  q_project_id :: "uuid option"
  q_limit :: "nat option"
  q_offset :: "nat option"
  q_search :: "string option"

record invoice_row =
  row_invoice :: invoice
  row_client_name :: "string option"
  row_client_email :: "string option"
  row_project_name :: "string option"

record invoice_listing =
  listed :: "invoice_row list"
  list_total :: nat
  list_limit :: nat
  list_offset :: nat
  hasMore :: bool

definition invoice_matches ::
  "(string \<Rightarrow> string \<Rightarrow> bool) \<Rightarrow> user_row list \<Rightarrow> invoice_query \<Rightarrow> invoice \<Rightarrow> bool" where
  "invoice_matches ilike us q r =
     ((case q_status q of
         None \<Rightarrow> True
       | Some s \<Rightarrow> if s = [] then True else invoice_status_name (status r) = s) \<and>
      (case q_client_id q of None \<Rightarrow> True | Some c \<Rightarrow> client_id r = c) \<and>
      (case q_project_id q of None \<Rightarrow> True | Some p \<Rightarrow> project_id r = Some p) \<and>
      (case q_search q of
         None \<Rightarrow> True
       | Some s \<Rightarrow>
           if s = [] then True
           else
             let pat = ''%'' @ s @ ''%''
             in ilike (number r) pat \<or>
                (case description r of None \<Rightarrow> False | Some t \<Rightarrow> ilike t pat) \<or>
                (case find_user us (client_id r) of
                   None \<Rightarrow> False
                 | Some c \<Rightarrow> ilike (name c) pat)))"

definition join_invoice :: "db \<Rightarrow> invoice \<Rightarrow> invoice_row" where
  "join_invoice d r =
     (let c = find_user (users d) (client_id r);
          p = (case project_id r of None \<Rightarrow> None | Some pid \<Rightarrow> find_project (projects d) pid)
      in \<lparr>row_invoice = r,
          row_client_name = map_option name c,
          row_client_email = map_option email c,
          row_project_name = map_option proj_name p\<rparr>)"

text \<open>
  \<^verbatim>\<open>UPDATE invoices SET status = 'overdue' WHERE status = 'pending' AND due_date < CURRENT_DATE\<close>.
\<close>

definition mark_overdue :: "date \<Rightarrow> invoice list \<Rightarrow> invoice list" where
  "mark_overdue today rows =
     map (\<lambda>r. if status r = Pending \<and> date_lt (due_date r) today then r\<lparr>status := Overdue\<rparr> else r)
       rows"

text \<open>
  The handler in its own order: the page of rows is selected, the total is counted, the
  overdue update runs, and the rows selected at the start are sent. \<^verbatim>\<open>ORDER BY created_at
  DESC\<close> is a stable sort: rows created at the same instant, whose order the database
  leaves open, keep the order of the table.
\<close>

definition get_invoices ::
  "(string \<Rightarrow> string \<Rightarrow> bool) \<Rightarrow> user_row \<Rightarrow> date \<Rightarrow> invoice_query \<Rightarrow> db \<Rightarrow>
     db \<times> invoice_listing response" where
  "get_invoices ilike caller today q d =
     (if \<not> canAccessBilling (roles caller) then (d, billing_denied)
      else
        let limit = (case q_limit q of None \<Rightarrow> 50 | Some n \<Rightarrow> n);
            offset = (case q_offset q of None \<Rightarrow> 0 | Some n \<Rightarrow> n);
            matching = filter (invoice_matches ilike (users d) q) (invoices d);
            result =
              map (join_invoice d)
                (take limit (drop offset (sort_key (\<lambda>r. - inv_created_at r) matching)));
            total = length matching;
            d' = d\<lparr>invoices := mark_overdue today (invoices d)\<rparr>
        in
          (d', Inr \<lparr>listed = result,
                    list_total = total,
                    list_limit = limit,
                    list_offset = offset,
                    hasMore = (offset + limit < total)\<rparr>))"

subsection \<open>GET /api/invoices/stats/overview\<close>

text \<open>
  SQL aggregates over a list of rows: \<^verbatim>\<open>SUM\<close> and \<^verbatim>\<open>AVG\<close> are \<^verbatim>\<open>NULL\<close> (\<open>None\<close>) when
  no non-null value is aggregated, and \<^verbatim>\<open>COALESCE\<close> replaces \<^verbatim>\<open>NULL\<close>.
\<close>

definition sql_sum :: "rat list \<Rightarrow> rat option" where
  "sql_sum xs = (if xs = [] then None else Some (sum_list xs))"

definition sql_avg :: "rat list \<Rightarrow> rat option" where
  "sql_avg xs = (if xs = [] then None else Some (sum_list xs / of_nat (length xs)))"

definition coalesce :: "'a option \<Rightarrow> 'a \<Rightarrow> 'a" where
  "coalesce v d = (case v of None \<Rightarrow> d | Some x \<Rightarrow> x)"

definition count_where :: "('a \<Rightarrow> bool) \<Rightarrow> 'a list \<Rightarrow> nat" where
  "count_where P rows = length (filter P rows)"

record invoice_stats =
  inv_total :: nat
  inv_pending :: nat
  inv_paid :: nat
  inv_overdue :: nat
  inv_cancelled :: nat
  totalRevenue :: rat
  pendingRevenue :: rat
  overdueRevenue :: rat
  averageAmount :: rat

definition revenue :: "invoice_status \<Rightarrow> invoice list \<Rightarrow> rat" where
  "revenue s rows = coalesce (sql_sum (map (\<lambda>r. if status r = s then amount r else 0) rows)) 0"

definition get_invoice_stats :: "user_row \<Rightarrow> db \<Rightarrow> invoice_stats response" where
  "get_invoice_stats caller d =
     (if \<not> canAccessBilling (roles caller) then billing_denied
      else
        let rows = invoices d
        in Inr \<lparr>inv_total = length rows,
                inv_pending = count_where (\<lambda>r. status r = Pending) rows,
                inv_paid = count_where (\<lambda>r. status r = Paid) rows,
                inv_overdue = count_where (\<lambda>r. status r = Overdue) rows,
                inv_cancelled = count_where (\<lambda>r. status r = Cancelled) rows,
                totalRevenue = revenue Paid rows,
                pendingRevenue = revenue Pending rows,
                overdueRevenue = revenue Overdue rows,
                averageAmount =
                  coalesce (sql_avg (map amount (filter (\<lambda>r. status r = Paid) rows))) 0\<rparr>)"

section \<open>Projects (routes/projects.js)\<close>

definition project_access_denied :: "'a response" where
  "project_access_denied =
     reject 403 ''Access denied. Project access requires user, madmin, or admin role.''"

record project_reply =
  reply_message :: string
  reply_project :: project
  created_by_name :: "string option"
  created_by_username :: "string option"

definition project_reply :: "string \<Rightarrow> db \<Rightarrow> project \<Rightarrow> project_reply" where
  "project_reply m d p =
     (let u = find_user (users d) (created_by p)
      in \<lparr>reply_message = m,
          reply_project = p,
          created_by_name = map_option name u,
          created_by_username = map_option username u\<rparr>)"

subsection \<open>POST /api/projects\<close>

record project_create =
  pc_name :: "string field"
  pc_description :: "string field"
  pc_start_date :: "date field"
  pc_end_date :: "date field"
  pc_status :: "project_status field"

definition project_create_valid :: "project_create \<Rightarrow> bool" where
  "project_create_valid req =
     (required (\<lambda>s. 1 \<le> length s \<and> length s \<le> 255) (pc_name req) \<and>
      optional (\<lambda>s. length s \<le> 5000) (pc_description req) \<and>
      required (\<lambda>x. True) (pc_start_date req) \<and>
      optional (\<lambda>x. True) (pc_end_date req) \<and>
      optional (\<lambda>x. True) (pc_status req))"

definition project_create_errors :: "project_create \<Rightarrow> validation_error list" where
  "project_create_errors req =
     check ''body'' ''name'' ''Project name is required and must be less than 255 characters''
       (required (\<lambda>s. 1 \<le> length s \<and> length s \<le> 255) (pc_name req)) @
     check ''body'' ''description'' ''Description must be less than 5000 characters''
       (optional (\<lambda>s. length s \<le> 5000) (pc_description req)) @
     check ''body'' ''start_date'' ''Valid start date is required (YYYY-MM-DD)''
       (required (\<lambda>x. True) (pc_start_date req)) @
     check ''body'' ''end_date'' ''End date must be valid (YYYY-MM-DD)''
       (optional (\<lambda>x. True) (pc_end_date req)) @
     check ''body'' ''status'' ''Status must be pending, ongoing, or completed''
       (optional (\<lambda>x. True) (pc_status req))"

definition post_project ::
  "user_row \<Rightarrow> uuid \<Rightarrow> timestamp \<Rightarrow> project_create \<Rightarrow> db \<Rightarrow> db \<times> project_reply response" where
  "post_project caller new_id now req d =
     (if project_create_errors req \<noteq> []
      then (d, validation_failed (project_create_errors req))
      else if \<not> canAccessProjects (roles caller)
      then (d, reject 403
                 ''Access denied. Project creation requires user, madmin, or admin role.'')
      else
        (case (pc_name req, pc_start_date req) of
           (Present nm, Present start) \<Rightarrow>
             let st = or_else (pc_status req) ProjectPending
             in
               if (case pc_end_date req of Present e \<Rightarrow> date_lt e start | _ \<Rightarrow> False)
               then (d, reject 400 ''End date cannot be before start date'')
               else if \<not> privileged caller \<and> is_present (pc_end_date req) \<and> st \<noteq> Completed
               then (d, reject 400 ''End date can only be set when project status is completed'')
               else
                 let newProject =
                       \<lparr>proj_id = new_id,
                        proj_name = nm,
                        proj_description = nullable (pc_description req),
                        start_date = start,
                        end_date = nullable (pc_end_date req),
                        proj_status = st,
                        created_by = user_id caller,
                        proj_created_at = now,
                        proj_updated_at = now\<rparr>;
                     d' = d\<lparr>projects := projects d @ [newProject]\<rparr>
                 in (d', Inr (project_reply ''Project created successfully'' d' newProject))
         | _ \<Rightarrow> (d, validation_failed (project_create_errors req))))"

subsection \<open>PUT /api/projects/:id\<close>

record project_update =
  pu_id :: "uuid field"
  pu_name :: "string field"
  pu_description :: "string field"
  pu_start_date :: "date field"
  pu_end_date :: "date field"
  pu_status :: "project_status field"

definition project_update_valid :: "project_update \<Rightarrow> bool" where
  "project_update_valid req =
     (required (\<lambda>i. True) (pu_id req) \<and>
      optional (\<lambda>s. 1 \<le> length s \<and> length s \<le> 255) (pu_name req) \<and>
      optional (\<lambda>s. length s \<le> 5000) (pu_description req) \<and>
      optional (\<lambda>x. True) (pu_start_date req) \<and>
      optional (\<lambda>x. True) (pu_end_date req) \<and>
      optional (\<lambda>x. True) (pu_status req))"

definition project_update_errors :: "project_update \<Rightarrow> validation_error list" where
  "project_update_errors req =
     check ''params'' ''id'' ''Invalid project ID'' (required (\<lambda>i. True) (pu_id req)) @
     check ''body'' ''name'' ''Project name must be less than 255 characters''
       (optional (\<lambda>s. 1 \<le> length s \<and> length s \<le> 255) (pu_name req)) @
     check ''body'' ''description'' ''Description must be less than 5000 characters''
       (optional (\<lambda>s. length s \<le> 5000) (pu_description req)) @
     check ''body'' ''start_date'' ''Start date must be valid (YYYY-MM-DD)''
       (optional (\<lambda>x. True) (pu_start_date req)) @
     check ''body'' ''end_date'' ''End date must be valid (YYYY-MM-DD)''
       (optional (\<lambda>x. True) (pu_end_date req)) @
     check ''body'' ''status'' ''Status must be pending, ongoing, or completed''
       (optional (\<lambda>x. True) (pu_status req))"

definition project_update_fields :: "project_update \<Rightarrow> nat" where
  "project_update_fields req =
     length (filter id
       [is_present (pu_name req), is_present (pu_description req),
        is_present (pu_start_date req), is_present (pu_end_date req),
        is_present (pu_status req)])"

text \<open>The \<^verbatim>\<open>SET\<close> list of the update: the columns that were sent, and \<^verbatim>\<open>updated_at\<close>.\<close>

definition set_project_fields :: "timestamp \<Rightarrow> project_update \<Rightarrow> project \<Rightarrow> project" where
  "set_project_fields now req p =
     p\<lparr>proj_name := or_else (pu_name req) (proj_name p),
       proj_description :=
         (case pu_description req of Present s \<Rightarrow> Some s | _ \<Rightarrow> proj_description p),
       start_date := or_else (pu_start_date req) (start_date p),
       end_date := (case pu_end_date req of Present e \<Rightarrow> Some e | _ \<Rightarrow> end_date p),
       proj_status := or_else (pu_status req) (proj_status p),
       proj_updated_at := now\<rparr>"

definition put_project ::
  "user_row \<Rightarrow> timestamp \<Rightarrow> project_update \<Rightarrow> db \<Rightarrow> db \<times> project_reply response" where
  "put_project caller now req d =
     (if project_update_errors req \<noteq> []
      then (d, validation_failed (project_update_errors req))
      else if \<not> canAccessProjects (roles caller) then (d, project_access_denied)
      else
        (case pu_id req of
           Present i \<Rightarrow>
             (case find_project (projects d) i of
                None \<Rightarrow> (d, reject 404 ''Project not found'')
              | Some project \<Rightarrow>
                  let canEdit = (privileged caller \<or> created_by project = user_id caller)
                  in
                    if \<not> canEdit
                    then (d, reject 403 ''Access denied. You can only edit your own projects.'')
                    else if \<not> privileged caller \<and> is_present (pu_end_date req) \<and>
                            pu_status req \<noteq> Present Completed
                    then (d, reject 400
                               ''End date can only be set when project status is completed'')
                    else if project_update_fields req = 0
                    then (d, reject 400 ''No valid fields to update'')
                    else
                      let updatedProject = set_project_fields now req project;
                          d' = d\<lparr>projects :=
                                   update_project i (set_project_fields now req) (projects d)\<rparr>
                      in (d', Inr (project_reply ''Project updated successfully'' d' updatedProject)))
         | _ \<Rightarrow> (d, validation_failed (project_update_errors req))))"

subsection \<open>PUT /api/projects/:id/complete\<close>

definition project_id_errors :: "uuid field \<Rightarrow> validation_error list" where
  "project_id_errors id_param =
     check ''params'' ''id'' ''Invalid project ID'' (required (\<lambda>i. True) id_param)"

definition complete_project :: "date \<Rightarrow> timestamp \<Rightarrow> project \<Rightarrow> project" where
  "complete_project today now p =
     p\<lparr>proj_status := Completed, end_date := Some today, proj_updated_at := now\<rparr>"

definition put_project_complete ::
  "user_row \<Rightarrow> date \<Rightarrow> timestamp \<Rightarrow> uuid field \<Rightarrow> db \<Rightarrow> db \<times> project_reply response" where
  "put_project_complete caller today now id_param d =
     (case id_param of
        Present i \<Rightarrow>
          if \<not> canAccessProjects (roles caller) then (d, project_access_denied)
          else
            (case find_project (projects d) i of
               None \<Rightarrow> (d, reject 404 ''Project not found'')
             | Some project \<Rightarrow>
                 let canComplete = (privileged caller \<or> created_by project = user_id caller)
                 in
                   if \<not> canComplete
                   then (d, reject 403 ''Access denied. You can only complete your own projects.'')
                   else if proj_status project = Completed
                   then (d, reject 400 ''Project is already completed'')
                   else
                     let completedProject = complete_project today now project;
                         d' = d\<lparr>projects :=
                                  update_project i (complete_project today now) (projects d)\<rparr>
                     in (d', Inr (project_reply ''Project marked as completed'' d' completedProject)))
      | _ \<Rightarrow> (d, validation_failed (project_id_errors id_param)))"

subsection \<open>GET /api/projects/stats/overview\<close>

text \<open>
  \<^verbatim>\<open>ROUND(completed * 100.0 / NULLIF(COUNT(*), 0), 2)\<close>: \<^verbatim>\<open>NULLIF\<close> turns a zero count into
  \<^verbatim>\<open>NULL\<close>, and a division by \<^verbatim>\<open>NULL\<close> is \<^verbatim>\<open>NULL\<close>. \<^verbatim>\<open>ROUND(x, 2)\<close> rounds a tie away
  from zero.
\<close>

definition nullif :: "nat \<Rightarrow> nat \<Rightarrow> nat option" where
  "nullif a b = (if a = b then None else Some a)"

definition sql_round2 :: "rat \<Rightarrow> rat" where
  "sql_round2 x = (if x < 0 then - 1 else 1) * of_int \<lfloor>\<bar>x\<bar> * 100 + 1 / 2\<rfloor> / 100"

definition completion_rate :: "nat \<Rightarrow> nat \<Rightarrow> rat option" where
  "completion_rate completed total_count =
     map_option (\<lambda>n. sql_round2 (of_nat completed * 100 / of_nat n)) (nullif total_count 0)"

text \<open>
  \<^verbatim>\<open>parseFloat(v) || 0\<close> on a nullable numeric column: \<^verbatim>\<open>parseFloat(null)\<close> is
  \<^verbatim>\<open>NaN\<close>, and both \<^verbatim>\<open>NaN\<close> and 0 are falsy.
\<close>

definition parseFloat_or_0 :: "rat option \<Rightarrow> rat" where
  "parseFloat_or_0 v = (case v of None \<Rightarrow> 0 | Some x \<Rightarrow> if x = 0 then 0 else x)"

record project_stats =
  ps_total :: nat
  ps_pending :: nat
  ps_ongoing :: nat
  ps_completed :: nat
  completionRate :: rat

definition get_project_stats :: "user_row \<Rightarrow> db \<Rightarrow> project_stats response" where
  "get_project_stats caller d =
     (if \<not> canAccessProjects (roles caller) then project_access_denied
      else
        let rows = (if \<not> privileged caller
                    then filter (\<lambda>p. created_by p = user_id caller) (projects d)
                    else projects d);
            total_projects = length rows;
            completed_projects = count_where (\<lambda>p. proj_status p = Completed) rows
        in Inr \<lparr>ps_total = total_projects,
                ps_pending = count_where (\<lambda>p. proj_status p = ProjectPending) rows,
                ps_ongoing = count_where (\<lambda>p. proj_status p = Ongoing) rows,
                ps_completed = completed_projects,
                completionRate =
                  parseFloat_or_0 (completion_rate completed_projects total_projects)\<rparr>)"

section \<open>Time entries (routes/timeEntries.js)\<close>

text \<open>Every route acts on the entries of the caller, \<^verbatim>\<open>req.user.id\<close>.\<close>

definition open_entries :: "uuid \<Rightarrow> time_entry list \<Rightarrow> time_entry list" where
  "open_entries uid rows = filter (\<lambda>e. te_user_id e = uid \<and> clock_out e = None) rows"

record time_reply =
  te_message :: string
  timeEntry :: time_entry
  duration :: "string option"

subsection \<open>POST /api/time-entries/clock-in\<close>

text \<open>
  \<open>today\<close> is \<^verbatim>\<open>now.toISOString().split('T')[0]\<close>, the UTC date of \<open>now\<close>. The
  column defaults \<^verbatim>\<open>created_at\<close> and \<^verbatim>\<open>updated_at\<close> of the inserted row are taken at
  the same instant, and \<open>new_id\<close> is the primary key the database assigns.
\<close>

definition post_clock_in ::
  "user_row \<Rightarrow> uuid \<Rightarrow> timestamp \<Rightarrow> date \<Rightarrow> db \<Rightarrow> db \<times> time_reply response" where
  "post_clock_in caller new_id now today d =
     (if open_entries (user_id caller) (time_entries d) \<noteq> []
      then (d, reject 400 ''You are already clocked in. Please clock out first.'')
      else
        let newEntry =
              \<lparr>te_id = new_id,
               te_user_id = user_id caller,
               clock_in = now,
               clock_out = None,
               te_date = today,
               te_created_at = now,
               te_updated_at = now\<rparr>
        in (d\<lparr>time_entries := time_entries d @ [newEntry]\<rparr>,
            Inr \<lparr>te_message = ''Clocked in successfully'',
                 timeEntry = newEntry,
                 duration = None\<rparr>))"

subsection \<open>PUT /api/time-entries/clock-out\<close>

text \<open>
  The remainder \<^verbatim>\<open>%\<close> of JavaScript takes the sign of the dividend; \<^verbatim>\<open>Math.floor\<close> of a
  quotient by a positive number is \<open>div\<close>.
\<close>

definition js_rem :: "int \<Rightarrow> int \<Rightarrow> int" where
  "js_rem a b = (if a < 0 then - ((- a) mod \<bar>b\<bar>) else a mod \<bar>b\<bar>)"

definition format_duration :: "int \<Rightarrow> string" where
  "format_duration diffMs =
     (let hours = diffMs div (1000 * 60 * 60);
          minutes = js_rem diffMs (1000 * 60 * 60) div (1000 * 60)
      in string_of_int hours @ '':'' @ padStart 2 CHR ''0'' (string_of_int minutes))"

definition close_entry :: "timestamp \<Rightarrow> time_entry \<Rightarrow> time_entry" where
  "close_entry now e = e\<lparr>clock_out := Some now, te_updated_at := now\<rparr>"

definition put_clock_out :: "user_row \<Rightarrow> timestamp \<Rightarrow> db \<Rightarrow> db \<times> time_reply response" where
  "put_clock_out caller now d =
     (case take 1 (sort_key (\<lambda>e. - te_created_at e)
                     (open_entries (user_id caller) (time_entries d))) of
        [] \<Rightarrow> (d, reject 400 ''You are not currently clocked in.'')
      | entry # _ \<Rightarrow>
          let updatedEntry = close_entry now entry
          in (d\<lparr>time_entries :=
                   map (\<lambda>e. if te_id e = te_id entry then close_entry now e else e)
                     (time_entries d)\<rparr>,
              Inr \<lparr>te_message = ''Clocked out successfully'',
                   timeEntry = updatedEntry,
                   duration = Some (format_duration (now - clock_in updatedEntry))\<rparr>))"

subsection \<open>DELETE /api/time-entries/:id\<close>

definition time_entry_id_errors :: "uuid field \<Rightarrow> validation_error list" where
  "time_entry_id_errors id_param =
     check ''params'' ''id'' ''Invalid time entry ID'' (required (\<lambda>i. True) id_param)"

definition delete_time_entry :: "user_row \<Rightarrow> uuid field \<Rightarrow> db \<Rightarrow> db \<times> string response" where
  "delete_time_entry caller id_param d =
     (case id_param of
        Present i \<Rightarrow>
          (case find (\<lambda>e. te_id e = i \<and> te_user_id e = user_id caller) (time_entries d) of
             None \<Rightarrow>
               (d, reject 404 ''Time entry not found or you do not have permission to delete it'')
           | Some entry \<Rightarrow>
               if clock_out entry = None
               then (d, reject 400 ''Cannot delete an active time entry. Please clock out first.'')
               else (d\<lparr>time_entries := filter (\<lambda>e. te_id e \<noteq> i) (time_entries d)\<rparr>,
                     Inr ''Time entry deleted successfully''))
      | _ \<Rightarrow> (d, validation_failed (time_entry_id_errors id_param)))"

text \<open>The three mutations of the table, and a run of them from a given state.\<close>

datatype time_op =
  ClockIn user_row uuid timestamp date
| ClockOut user_row timestamp
| DeleteEntry user_row "uuid field"

fun time_step :: "time_op \<Rightarrow> db \<Rightarrow> db" where
  "time_step (ClockIn caller new_id now today) d = fst (post_clock_in caller new_id now today d)"
| "time_step (ClockOut caller now) d = fst (put_clock_out caller now d)"
| "time_step (DeleteEntry caller id_param) d = fst (delete_time_entry caller id_param d)"

definition time_run :: "time_op list \<Rightarrow> db \<Rightarrow> db" where
  "time_run ops d = fold time_step ops d"

subsection \<open>GET /api/time-entries/stats\<close>

text \<open>
  The window of the query, \<^verbatim>\<open>date >= CURRENT_DATE - INTERVAL '..'\<close>. The date arithmetic of
  the database is the parameter \<open>date_minus\<close>.
\<close>

datatype sql_interval = Days nat | Years nat

record time_stats =
  period :: string
  totalEntries :: nat
  completedEntries :: nat
  activeEntries :: nat
  daysWorked :: nat
  totalHours :: string
  averageHoursPerDay :: rat

definition period_window :: "string option \<Rightarrow> sql_interval \<times> string" where
  "period_window p =
     (let period = (case p of None \<Rightarrow> ''month'' | Some v \<Rightarrow> v)
      in if period = ''week'' then (Days 7, ''This Week'')
         else if period = ''year'' then (Years 1, ''This Year'')
         else (Days 30, ''This Month''))"

definition worked_hours :: "time_entry \<Rightarrow> rat" where
  "worked_hours e =
     (case clock_out e of
        Some out \<Rightarrow> of_int (out - clock_in e) / 1000 / 3600
      | None \<Rightarrow> 0)"

definition get_time_stats ::
  "(date \<Rightarrow> sql_interval \<Rightarrow> date) \<Rightarrow> user_row \<Rightarrow> date \<Rightarrow> string option \<Rightarrow> db \<Rightarrow> time_stats" where
  "get_time_stats date_minus caller today p d =
     (let (window, periodName) = period_window p;
          rows = filter (\<lambda>e. te_user_id e = user_id caller \<and>
                              \<not> date_lt (te_date e) (date_minus today window))
                   (time_entries d);
          days_worked = length (remdups (map te_date rows));
          total_hours = coalesce (sql_sum (map worked_hours rows)) 0;
          avgHoursPerDay =
            (if days_worked > 0 then parse_toFixed2 (total_hours / of_nat days_worked) else 0)
      in \<lparr>period = periodName,
          totalEntries = length rows,
          completedEntries = count_where (\<lambda>e. clock_out e \<noteq> None) rows,
          activeEntries = count_where (\<lambda>e. clock_out e = None) rows,
          daysWorked = days_worked,
          totalHours = toFixed2 total_hours,
          averageHoursPerDay = avgHoursPerDay\<rparr>)"

section \<open>Example data\<close>

definition admin :: user_row where
  "admin =
     \<lparr>user_id = 1, email = ''admin@example.com'', username = ''admin'', name = ''Admin'',
      roles = [''staff'', ''admin''], approved = True\<rparr>"

definition member :: user_row where
  "member =
     \<lparr>user_id = 2, email = ''member@example.com'', username = ''member'', name = ''Member'',
      roles = [''staff'', ''user''], approved = True\<rparr>"

definition invoice_100 :: invoice where
  "invoice_100 =
     \<lparr>inv_id = 10, number = ''20240001'', client_id = 2, project_id = None, amount = 100,
      description = None, inv_date = \<lparr>d_year = 2024, d_month = 1, d_day = 10\<rparr>,
      due_date = \<lparr>d_year = 2024, d_month = 2, d_day = 10\<rparr>, status = Pending,
      paid_amount = 40, inv_created_at = 0, inv_updated_at = 0\<rparr>"

definition billing_db :: db where
  "billing_db =
     \<lparr>users = [admin, member], projects = [], invoices = [invoice_100], time_entries = []\<rparr>"

definition partial_payment :: "uuid \<Rightarrow> rat \<Rightarrow> payment_request" where
  "partial_payment i a = \<lparr>pay_id = Present i, pay_amount = Present a, markAsPaid = Absent\<rparr>"

definition full_payment :: "uuid \<Rightarrow> rat \<Rightarrow> payment_request" where
  "full_payment i a = \<lparr>pay_id = Present i, pay_amount = Present a, markAsPaid = Present True\<rparr>"

definition cancelled_invoice :: invoice where
  "cancelled_invoice = invoice_100\<lparr>inv_id := 11, status := Cancelled\<rparr>"

definition overdue_invoice :: invoice where
  "overdue_invoice = invoice_100\<lparr>inv_id := 12, status := Overdue\<rparr>"

definition mixed_db :: db where
  "mixed_db =
     \<lparr>users = [admin, member], projects = [],
      invoices = [invoice_100, cancelled_invoice, overdue_invoice], time_entries = []\<rparr>"


text \<open>The number a string of decimal digits denotes, to read a formatted sequence back.\<close>

definition digit_value :: "char \<Rightarrow> nat" where
  "digit_value c = of_char c - 48"

definition decimal_value :: "string \<Rightarrow> nat" where
  "decimal_value s = foldl (\<lambda>v c. 10 * v + digit_value c) 0 s"




definition no_filter :: invoice_query where
  "no_filter =
     \<lparr>q_status = None, q_client_id = None, q_project_id = None, q_limit = None,
      q_offset = None, q_search = None\<rparr>"

definition march_1st :: date where
  "march_1st = \<lparr>d_year = 2024, d_month = 3, d_day = 1\<rparr>"

definition site_project :: project where
  "site_project =
     \<lparr>proj_id = 30, proj_name = ''Site'', proj_description = None,
      start_date = \<lparr>d_year = 2024, d_month = 1, d_day = 10\<rparr>, end_date = None,
      proj_status = Ongoing, created_by = 2, proj_created_at = 0, proj_updated_at = 0\<rparr>"

definition done_project :: project where
  "done_project =
     \<lparr>proj_id = 31, proj_name = ''Done'', proj_description = None,
      start_date = \<lparr>d_year = 2024, d_month = 1, d_day = 10\<rparr>,
      end_date = Some \<lparr>d_year = 2024, d_month = 2, d_day = 1\<rparr>,
      proj_status = Completed, created_by = 2, proj_created_at = 0, proj_updated_at = 0\<rparr>"

definition project_db :: db where
  "project_db =
     \<lparr>users = [admin, member], projects = [site_project, done_project], invoices = [],
      time_entries = []\<rparr>"

definition end_before_start :: project_update where
  "end_before_start =
     \<lparr>pu_id = Present 30, pu_name = Absent, pu_description = Absent, pu_start_date = Absent,
      pu_end_date = Present \<lparr>d_year = 2024, d_month = 1, d_day = 5\<rparr>, pu_status = Absent\<rparr>"

definition ended_site_project :: project where
  "ended_site_project =
     site_project\<lparr>end_date := Some \<lparr>d_year = 2024, d_month = 1, d_day = 5\<rparr>,
                  proj_updated_at := 9\<rparr>"

definition empty_db :: db where
  "empty_db = \<lparr>users = [admin, member], projects = [], invoices = [], time_entries = []\<rparr>"

definition working_day :: "time_op list" where
  "working_day =
     [ClockIn member 40 1000 march_1st, ClockIn member 41 2000 march_1st,
      ClockOut member 3000, ClockOut member 4000, ClockIn member 42 5000 march_1st]"

text \<open>
  The readings of \<^verbatim>\<open>2024-12-31T23:30:00-05:00\<close> on a server in UTC: the instant is
  2025-01-01T04:30:00Z, so \<^verbatim>\<open>getFullYear()\<close> is 2025, and the date column stores
  2024-12-31.
\<close>

definition new_years_eve :: iso8601 where
  "new_years_eve =
     \<lparr>js_time = 1735705800000, js_full_year = 2025,
      pg_date = \<lparr>d_year = 2024, d_month = 12, d_day = 31\<rparr>\<rparr>"

definition new_years_eve_invoice :: invoice_create where
  "new_years_eve_invoice =
     \<lparr>new_client_id = Present 2, new_project_id = Absent, new_amount = Present 250,
      new_description = Absent, new_date = Present new_years_eve,
      new_due_date = Present (date_only \<lparr>d_year = 2025, d_month = 1, d_day = 31\<rparr>)\<rparr>"

definition new_years_eve_row :: invoice where
  "new_years_eve_row =
     \<lparr>inv_id = 20, number = ''20250001'', client_id = 2, project_id = None, amount = 250,
      description = None, inv_date = \<lparr>d_year = 2024, d_month = 12, d_day = 31\<rparr>,
      due_date = \<lparr>d_year = 2025, d_month = 1, d_day = 31\<rparr>, status = Pending,
      paid_amount = 0, inv_created_at = 5, inv_updated_at = 5\<rparr>"

text \<open>An arithmetic with exact sums and a column of two decimals.\<close>

definition two_decimals :: arithmetic where
  "two_decimals =
     \<lparr>parseFloat = (\<lambda>x. x), js_add = (+), js_sub = (-), to_column = sql_round2\<rparr>"

section \<open>Properties of the validators\<close>

lemma check_empty [simp]: "(check loc p m ok = []) = ok"
  by (simp add: check_def)

lemma payment_errors_empty [simp]: "(payment_errors req = []) = payment_valid req"
  by (cases "pay_amount req") (auto simp: payment_errors_def payment_valid_def)

lemma invoice_create_errors_empty [simp]:
  "(invoice_create_errors req = []) = invoice_create_valid req"
  by (cases "new_amount req") (auto simp: invoice_create_errors_def invoice_create_valid_def)

lemma invoice_update_errors_empty [simp]:
  "(invoice_update_errors req = []) = invoice_update_valid req"
  by (cases "upd_amount req") (auto simp: invoice_update_errors_def invoice_update_valid_def)

lemma project_create_errors_empty [simp]:
  "(project_create_errors req = []) = project_create_valid req"
  by (auto simp: project_create_errors_def project_create_valid_def)

lemma project_update_errors_empty [simp]:
  "(project_update_errors req = []) = project_update_valid req"
  by (auto simp: project_update_errors_def project_update_valid_def)

section \<open>Properties of the invoice routes\<close>

lemma find_update_invoice:
  assumes "\<And>r. inv_id (f r) = inv_id r"
  shows "find_invoice (update_invoice i f rows) j =
           (if j = i then map_option f (find_invoice rows i) else find_invoice rows j)"
  unfolding find_invoice_def update_invoice_def
  by (induction rows) (auto simp: assms)

lemma inv_id_store_payment [simp]: "inv_id (store_payment now p s r) = inv_id r"
  by (simp add: store_payment_def)







lemma find_invoice_100: "find_invoice (invoices billing_db) 10 = Some invoice_100"
  by (simp add: find_invoice_def billing_db_def invoice_100_def)

lemma admin_billing: "canAccessBilling (roles admin)"
  by (simp add: canAccessBilling_def hasRole_def admin_def)


lemma invoice_100_fields:
  "paid_amount invoice_100 \<le> amount invoice_100" "amount invoice_100 = 100"
  "paid_amount invoice_100 = 40" "status invoice_100 = Pending"
  by (simp_all add: invoice_100_def)

lemma partial_payment_simps [simp]:
  "pay_id (partial_payment i a) = Present i"
  "pay_amount (partial_payment i a) = Present a"
  "or_else (markAsPaid (partial_payment i a)) False = False"
  "payment_valid (partial_payment i a) = (1 / 100 \<le> a)"
  by (simp_all add: partial_payment_def payment_valid_def)

lemma full_payment_simps [simp]:
  "pay_id (full_payment i a) = Present i"
  "pay_amount (full_payment i a) = Present a"
  "or_else (markAsPaid (full_payment i a)) False = True"
  "payment_valid (full_payment i a) = (1 / 100 \<le> a)"
  by (simp_all add: full_payment_def payment_valid_def)

lemma put_payment_eval:
  assumes "canAccessBilling (roles caller)" "payment_valid req" "pay_id req = Present i"
    "pay_amount req = Present a" "find_invoice (invoices d) i = Some iv"
    "status iv \<noteq> Cancelled"
    "new_payment_state (or_else (markAsPaid req) False) (paid_amount iv) (amount iv) a = Inr (np, ns)"
  shows "put_payment caller now req d =
    (d\<lparr>invoices := update_invoice i (store_payment now np ns) (invoices d)\<rparr>,
     Inr \<lparr>pay_message = (if or_else (markAsPaid req) False then ''Invoice marked as paid''
                           else ''Payment added successfully''),
          pay_invoice = store_payment now np ns iv,
          payment_amount = (if or_else (markAsPaid req) False then amount iv - paid_amount iv else a),
          newBalance = amount iv - np,
          totalPaid = np\<rparr>)"
  using assms by (simp add: put_payment_def Let_def)


lemma post_invoice_accepted:
  assumes "post_invoice caller new_id now req d = (d', Inr r)"
  shows "\<exists>cid amt dt due client.
     new_client_id req = Present cid \<and> new_amount req = Present amt \<and> 1 / 100 \<le> amt \<and>
     new_date req = Present dt \<and> new_due_date req = Present due \<and> \<not> js_time due < js_time dt \<and>
     find_user (users d) cid = Some client \<and> approved client \<and>
     created_invoice r =
       \<lparr>inv_id = new_id,
        number = invoiceNumber (js_full_year dt) (count_in_year (js_full_year dt) (invoices d) + 1),
        client_id = cid, project_id = nullable (new_project_id req), amount = amt,
        description = nullable (new_description req), inv_date = pg_date dt,
        due_date = pg_date due,
        status = Pending, paid_amount = 0, inv_created_at = now, inv_updated_at = now\<rparr> \<and>
     d' = d\<lparr>invoices := invoices d @ [created_invoice r]\<rparr>"
proof -
  from assms have v: "invoice_create_valid req"
    by (auto simp: post_invoice_def billing_denied_def reject_def validation_failed_def
        split: if_splits)
  then obtain cid amt dt due where
    f: "new_client_id req = Present cid" "new_amount req = Present amt"
       "new_date req = Present dt" "new_due_date req = Present due" "1 / 100 \<le> amt"
    by (cases "new_client_id req"; cases "new_amount req"; cases "new_date req";
        cases "new_due_date req") (auto simp: invoice_create_valid_def)
  show ?thesis
  proof (cases "find_user (users d) cid")
    case None
    with assms f v show ?thesis
      by (simp add: post_invoice_def billing_denied_def reject_def split: if_splits)
  next
    case (Some client)
    with assms f v show ?thesis
      by (simp add: post_invoice_def billing_denied_def reject_def Let_def split: if_splits) auto
  qed
qed


lemma number_20240002: "invoiceNumber 2024 (1 + 1) = ''20240002''"
  by code_simp




lemma find_mixed:
  "find_invoice (invoices mixed_db) 10 = Some invoice_100"
  "find_invoice (invoices mixed_db) 11 = Some cancelled_invoice"
  "find_invoice (invoices mixed_db) 12 = Some overdue_invoice"
  by (simp_all add: find_invoice_def mixed_db_def invoice_100_def cancelled_invoice_def
      overdue_invoice_def)

lemma cancelled_invoice_rejects_payment:
  assumes "canAccessBilling (roles caller)" "payment_valid req" "pay_id req = Present i"
    "find_invoice (invoices d) i = Some iv" "status iv = Cancelled"
  shows "put_payment caller now req d =
           (d, reject 400 ''Cannot add payment to cancelled invoice'')"
proof -
  from assms(2) obtain x where "pay_amount req = Present x"
    by (cases "pay_amount req") (auto simp: payment_valid_def)
  with assms show ?thesis by (simp add: put_payment_def)
qed

lemma mark_as_paid_accepted:
  assumes a: "canAccessBilling (roles caller)" "payment_valid req" "pay_id req = Present i"
    "or_else (markAsPaid req) False" "find_invoice (invoices d) i = Some iv"
    "status iv \<noteq> Cancelled"
  shows "\<exists>d' s iv'. put_payment caller now req d = (d', Inr s) \<and>
        find_invoice (invoices d') i = Some iv' \<and> pay_invoice s = iv' \<and>
        paid_amount iv' = amount iv \<and> amount iv' = amount iv \<and> status iv' = Paid"
proof -
  from a(2,3) obtain x where x: "pay_amount req = Present x"
    by (cases "pay_amount req") (auto simp: payment_valid_def)
  have n: "new_payment_state (or_else (markAsPaid req) False) (paid_amount iv) (amount iv) x =
             Inr (amount iv, Paid)"
    using a(4) by (simp add: new_payment_state_def)
  from put_payment_eval [OF a(1,2,3) x a(5,6) n, of now] a(5)
  show ?thesis
    by (simp add: find_update_invoice store_payment_def)
qed

text \<open>
  C7 (as amended). For every invoice that is not cancelled, whatever it has been paid so
  far, a well-formed payment request in mark-as-paid mode by a caller with billing access
  is accepted and sets \<open>paid_amount\<close> to \<open>amount\<close> and \<open>status\<close> to paid. For every
  cancelled invoice, a well-formed payment request by such a caller, in either mode, is
  rejected with the 400 \<^verbatim>\<open>Cannot add payment to cancelled invoice\<close> and leaves the tables,
  and with them the \<open>paid_amount\<close> and the \<open>status\<close> of the invoice, as they were.
\<close>

theorem mark_as_paid_settles_invoice:
  "(canAccessBilling (roles caller) \<and> payment_valid req \<and> pay_id req = Present i \<and>
    or_else (markAsPaid req) False \<and> find_invoice (invoices d) i = Some iv \<and>
    status iv \<noteq> Cancelled \<longrightarrow>
      (\<exists>d' s iv'. put_payment caller now req d = (d', Inr s) \<and>
         find_invoice (invoices d') i = Some iv' \<and> pay_invoice s = iv' \<and>
         paid_amount iv' = amount iv \<and> amount iv' = amount iv \<and> status iv' = Paid)) \<and>
   (canAccessBilling (roles caller) \<and> payment_valid req \<and> pay_id req = Present i \<and>
    find_invoice (invoices d) i = Some iv \<and> status iv = Cancelled \<longrightarrow>
      put_payment caller now req d =
        (d, reject 400 ''Cannot add payment to cancelled invoice''))"
  using mark_as_paid_accepted [of caller req i d iv now]
    cancelled_invoice_rejects_payment [of caller req i d iv now]
  by blast

theorem mark_as_paid_settles_invoice_witness:
  "canAccessBilling (roles admin) \<and> payment_valid (full_payment 10 1) \<and>
   find_invoice (invoices mixed_db) 10 = Some invoice_100 \<and> paid_amount invoice_100 = 40 \<and>
   (\<exists>d' s iv'. put_payment admin 7 (full_payment 10 1) mixed_db = (d', Inr s) \<and>
        find_invoice (invoices d') 10 = Some iv' \<and> pay_invoice s = iv' \<and>
        paid_amount iv' = 100 \<and> amount iv' = 100 \<and> status iv' = Paid) \<and>
   payment_valid (full_payment 11 1) \<and>
   find_invoice (invoices mixed_db) 11 = Some cancelled_invoice \<and>
   status cancelled_invoice = Cancelled \<and>
   put_payment admin 7 (full_payment 11 1) mixed_db =
     (mixed_db, reject 400 ''Cannot add payment to cancelled invoice'')"
proof -
  have c: "status cancelled_invoice = Cancelled"
    by (simp add: cancelled_invoice_def)
  have settled: "\<exists>d' s iv'. put_payment admin 7 (full_payment 10 1) mixed_db = (d', Inr s) \<and>
        find_invoice (invoices d') 10 = Some iv' \<and> pay_invoice s = iv' \<and>
        paid_amount iv' = 100 \<and> amount iv' = 100 \<and> status iv' = Paid"
    using mark_as_paid_settles_invoice [of admin "full_payment 10 1" 10 mixed_db invoice_100 7]
      admin_billing find_mixed(1)
    by (simp add: invoice_100_fields)
  have refused: "put_payment admin 7 (full_payment 11 1) mixed_db =
     (mixed_db, reject 400 ''Cannot add payment to cancelled invoice'')"
    using mark_as_paid_settles_invoice
            [of admin "full_payment 11 1" 11 mixed_db cancelled_invoice 7]
      admin_billing find_mixed(2) c
    by simp
  from settled refused c admin_billing find_mixed(1,2) show ?thesis
    by (simp add: invoice_100_fields)
qed

theorem mark_as_paid_cancelled_counterexample:
  "put_payment admin 7 (full_payment 11 1) mixed_db =
     (mixed_db, reject 400 ''Cannot add payment to cancelled invoice'') \<and>
   map_option status (find_invoice (invoices mixed_db) 11) = Some Cancelled \<and>
   map_option paid_amount (find_invoice (invoices mixed_db) 11) = Some 40 \<and>
   map_option amount (find_invoice (invoices mixed_db) 11) = Some 100"
  using admin_billing
  by (simp add: put_payment_def find_mixed cancelled_invoice_def invoice_100_def)




lemma inv_id_set_invoice_fields [simp]: "inv_id (set_invoice_fields now u r) = inv_id r"
  by (simp add: set_invoice_fields_def)


lemma put_invoice_rejected:
  "snd (put_invoice caller now u d) = Inl e \<Longrightarrow> fst (put_invoice caller now u d) = d"
  by (cases "upd_id u"; cases "find_invoice (invoices d) (case upd_id u of Present i \<Rightarrow> i | _ \<Rightarrow> 0)")
     (simp_all add: put_invoice_def Let_def reject_def validation_failed_def billing_denied_def
        split: if_splits)

lemma exact_simps [simp]:
  "parseFloat exact x = x" "js_add exact x y = x + y"
  "js_sub exact x y = x - y" "to_column exact x = x"
  by (simp_all add: exact_def)


lemma inv_id_store_payment_with [simp]: "inv_id (store_payment_with ar now p s r) = inv_id r"
  by (simp add: store_payment_with_def)





lemma put_payment_with_eval:
  assumes "canAccessBilling (roles caller)" "payment_valid req" "pay_id req = Present i"
    "pay_amount req = Present a" "find_invoice (invoices d) i = Some iv"
    "status iv \<noteq> Cancelled"
    "new_payment_state_with ar (or_else (markAsPaid req) False) (parseFloat ar (paid_amount iv))
       (parseFloat ar (amount iv)) (parseFloat ar a) = Inr (np, ns)"
  shows "put_payment_with ar caller now req d =
    (d\<lparr>invoices := update_invoice i (store_payment_with ar now np ns) (invoices d)\<rparr>,
     Inr \<lparr>pay_message = (if or_else (markAsPaid req) False then ''Invoice marked as paid''
                           else ''Payment added successfully''),
          pay_invoice = store_payment_with ar now np ns iv,
          payment_amount =
            (if or_else (markAsPaid req) False
             then js_sub ar (parseFloat ar (amount iv)) (parseFloat ar (paid_amount iv))
             else parseFloat ar a),
          newBalance = js_sub ar (parseFloat ar (amount iv)) np,
          totalPaid = np\<rparr>)"
  using assms by (simp add: put_payment_with_def Let_def)

lemma two_decimals_simps [simp]:
  "parseFloat two_decimals x = x" "js_add two_decimals x y = x + y"
  "js_sub two_decimals x y = x - y" "to_column two_decimals x = sql_round2 x"
  by (simp_all add: two_decimals_def)

lemma rounded_total_reaches_amount_pending:
  "put_payment_with two_decimals admin 7 (partial_payment 10 (14999 / 250)) billing_db =
     (billing_db\<lparr>invoices :=
        [invoice_100\<lparr>paid_amount := 100, status := Pending, inv_updated_at := 7\<rparr>]\<rparr>,
      Inr \<lparr>pay_message = ''Payment added successfully'',
           pay_invoice = invoice_100\<lparr>paid_amount := 100, status := Pending, inv_updated_at := 7\<rparr>,
           payment_amount = 14999 / 250, newBalance = 1 / 250, totalPaid = 24999 / 250\<rparr>)"
proof -
  have r: "sql_round2 (24999 / 250) = 100"
    by code_simp
  have n: "new_payment_state_with two_decimals
             (or_else (markAsPaid (partial_payment 10 (14999 / 250))) False)
             (parseFloat two_decimals (paid_amount invoice_100))
             (parseFloat two_decimals (amount invoice_100))
             (parseFloat two_decimals (14999 / 250)) = Inr (24999 / 250, Pending)"
    by (simp add: new_payment_state_with_def invoice_100_fields)
  have v: "payment_valid (partial_payment 10 (14999 / 250))" by simp
  have st: "status invoice_100 \<noteq> Cancelled" by (simp add: invoice_100_fields)
  have stored: "store_payment_with two_decimals 7 (24999 / 250) Pending invoice_100 =
     invoice_100\<lparr>paid_amount := 100, status := Pending, inv_updated_at := 7\<rparr>"
    by (simp only: store_payment_with_def two_decimals_simps r)
  have upd: "update_invoice 10 (store_payment_with two_decimals 7 (24999 / 250) Pending)
               (invoices billing_db) =
             [invoice_100\<lparr>paid_amount := 100, status := Pending, inv_updated_at := 7\<rparr>]"
    unfolding stored [symmetric]
    by (simp add: update_invoice_def billing_db_def) (simp add: invoice_100_def)
  from put_payment_with_eval [OF admin_billing v _ _ find_invoice_100 st n, of 7]
  show ?thesis
    by (simp add: upd stored invoice_100_fields)
qed




lemma digit_value_digit_char: "digit_value (digit_char n) = n mod 10"
proof -
  have "n mod 10 < 10" by simp
  then have "n mod 10 \<in> {0, 1, 2, 3, 4, 5, 6, 7, 8, 9}" by (simp only: insert_iff empty_iff) arith
  then show ?thesis
    by (auto simp: digit_value_def digit_char_def)
qed

lemma decimal_value_snoc: "decimal_value (s @ [c]) = 10 * decimal_value s + digit_value c"
  by (simp add: decimal_value_def)

lemma decimal_value_string_of_nat: "decimal_value (string_of_nat n) = n"
proof (induction n rule: string_of_nat.induct)
  case (1 n)
  show ?case
  proof (cases "n < 10")
    case True
    then show ?thesis
      by (subst string_of_nat.simps) (simp add: decimal_value_def digit_value_digit_char)
  next
    case False
    with 1 show ?thesis
      by (subst string_of_nat.simps) (simp add: decimal_value_snoc digit_value_digit_char)
  qed
qed

lemma decimal_value_zeros: "decimal_value (replicate k CHR ''0'' @ s) = decimal_value s"
proof -
  have "foldl (\<lambda>v c. 10 * v + digit_value c) 0 (replicate k CHR ''0'') = 0"
    by (induction k) (simp_all add: digit_value_def)
  then show ?thesis by (simp add: decimal_value_def)
qed

lemma decimal_value_padStart: "decimal_value (padStart n CHR ''0'' (string_of_nat k)) = k"
  by (simp add: padStart_def decimal_value_zeros decimal_value_string_of_nat)

lemma length_padStart: "n \<le> length (padStart n c s)"
  by (simp add: padStart_def)

lemma padStart_1: "padStart 4 CHR ''0'' (string_of_nat 1) = ''0001''"
  by code_simp

lemma post_invoice_number:
  "post_invoice caller new_id now req d = (d', Inr r) \<longrightarrow>
     (\<exists>dt seq. new_date req = Present dt \<and> inv_date (created_invoice r) = pg_date dt \<and>
        invoices d' = invoices d @ [created_invoice r] \<and>
        number (created_invoice r) = string_of_nat (js_full_year dt) @ seq \<and>
        seq = padStart 4 CHR ''0''
                (string_of_nat (length (filter (\<lambda>x. d_year (inv_date x) = js_full_year dt) (invoices d)) + 1)) \<and>
        4 \<le> length seq \<and>
        decimal_value seq = length (filter (\<lambda>x. d_year (inv_date x) = js_full_year dt) (invoices d)) + 1 \<and>
        (if filter (\<lambda>x. d_year (inv_date x) = js_full_year dt) (invoices d) = [] then seq = ''0001''
         else seq \<noteq> ''0001''))"
proof
  assume "post_invoice caller new_id now req d = (d', Inr r)"
  from post_invoice_accepted [OF this] obtain dt where
    h: "new_date req = Present dt" "inv_date (created_invoice r) = pg_date dt"
       "number (created_invoice r) =
          invoiceNumber (js_full_year dt) (count_in_year (js_full_year dt) (invoices d) + 1)"
       "d' = d\<lparr>invoices := invoices d @ [created_invoice r]\<rparr>"
    by auto
  let ?n = "length (filter (\<lambda>x. d_year (inv_date x) = js_full_year dt) (invoices d))"
  let ?seq = "padStart 4 CHR ''0'' (string_of_nat (?n + 1))"
  have ne: "?seq \<noteq> ''0001''" if "?n \<noteq> 0"
  proof
    assume "?seq = ''0001''"
    then have "decimal_value ?seq = decimal_value ''0001''" by simp
    then have "?n + 1 = 1"
      by (simp only: decimal_value_padStart) (simp add: decimal_value_def digit_value_def)
    with that show False by simp
  qed
  have "(if filter (\<lambda>x. d_year (inv_date x) = js_full_year dt) (invoices d) = [] then ?seq = ''0001''
         else ?seq \<noteq> ''0001'')"
  proof (cases "filter (\<lambda>x. d_year (inv_date x) = js_full_year dt) (invoices d) = []")
    case True
    then show ?thesis using padStart_1 by simp
  next
    case False
    then have "?n \<noteq> 0" by simp
    from ne [OF this] False show ?thesis by simp
  qed
  then have f: "(if filter (\<lambda>x. d_year (inv_date x) = js_full_year dt) (invoices d) = []
               then ?seq = ''0001'' else ?seq \<noteq> ''0001'')" .
  have a: "number (created_invoice r) = string_of_nat (js_full_year dt) @ ?seq"
    using h(3) by (simp add: invoiceNumber_def count_in_year_def)
  have b: "invoices d' = invoices d @ [created_invoice r]"
    using h(4) by simp
  have c: "4 \<le> length ?seq" by (rule length_padStart)
  have e: "decimal_value ?seq = ?n + 1" by (rule decimal_value_padStart)
  from h(1,2) a b c e f show "\<exists>dt seq. new_date req = Present dt \<and> inv_date (created_invoice r) = pg_date dt \<and>
        invoices d' = invoices d @ [created_invoice r] \<and>
        number (created_invoice r) = string_of_nat (js_full_year dt) @ seq \<and>
        seq = padStart 4 CHR ''0''
                (string_of_nat (length (filter (\<lambda>x. d_year (inv_date x) = js_full_year dt) (invoices d)) + 1)) \<and>
        4 \<le> length seq \<and>
        decimal_value seq = length (filter (\<lambda>x. d_year (inv_date x) = js_full_year dt) (invoices d)) + 1 \<and>
        (if filter (\<lambda>x. d_year (inv_date x) = js_full_year dt) (invoices d) = [] then seq = ''0001''
         else seq \<noteq> ''0001'')"
    by blast
qed

lemma date_only_readings [simp]:
  "pg_date (date_only dt) = dt" "js_full_year (date_only dt) = d_year dt"
  by (simp_all add: date_only_def)

lemma number_20250001: "invoiceNumber 2025 (0 + 1) = ''20250001''"
  by code_simp

lemma january_31_after_new_years_eve:
  "\<not> js_time (date_only \<lparr>d_year = 2025, d_month = 1, d_day = 31\<rparr>) < js_time new_years_eve"
  by (simp add: date_only_def days_from_civil_def new_years_eve_def)

text \<open>
  C8. The number is built from \<^verbatim>\<open>new Date(date).getFullYear()\<close> and from the count of the
  stored invoices of that year (\<open>post_invoice_number\<close>), which is the year of the invoice
  for a date-only string on a server in UTC. For \<^verbatim>\<open>2024-12-31T23:30:00-05:00\<close> it is not:
  the invoice is stored with the date 2024-12-31, one invoice of 2024 is already stored, and
  the number is 20250001, where the year of the invoice and the count of its year give
  20240002.
\<close>

theorem invoice_number_takes_year_of_instant:
  "post_invoice admin 20 5 new_years_eve_invoice billing_db =
     (billing_db\<lparr>invoices := [invoice_100, new_years_eve_row]\<rparr>,
      Inr \<lparr>created_message = ''Invoice created successfully'',
           created_invoice = new_years_eve_row,
           created_client_name = ''Member'',
           created_client_email = ''member@example.com''\<rparr>) \<and>
   number new_years_eve_row = ''20250001'' \<and>
   d_year (inv_date new_years_eve_row) = 2024 \<and>
   count_in_year 2024 (invoices billing_db) = 1 \<and>
   invoiceNumber (d_year (inv_date new_years_eve_row))
     (count_in_year (d_year (inv_date new_years_eve_row)) (invoices billing_db) + 1) =
     ''20240002''"
proof -
  have c: "count_in_year 2025 (invoices billing_db) = 0"
    "count_in_year 2024 (invoices billing_db) = 1"
    by (simp_all add: count_in_year_def billing_db_def invoice_100_def)
  have u: "find_user (users billing_db) 2 = Some member"
    by (simp add: find_user_def billing_db_def admin_def member_def)
  have m: "approved member" "name member = ''Member''" "email member = ''member@example.com''"
    by (simp_all add: member_def)
  have y: "js_full_year new_years_eve = 2025"
    "pg_date new_years_eve = \<lparr>d_year = 2024, d_month = 12, d_day = 31\<rparr>"
    by (simp_all add: new_years_eve_def)
  have r: "d_year (inv_date new_years_eve_row) = 2024" "number new_years_eve_row = ''20250001''"
    by (simp_all add: new_years_eve_row_def)
  have posted: "post_invoice admin 20 5 new_years_eve_invoice billing_db =
     (billing_db\<lparr>invoices := [invoice_100, new_years_eve_row]\<rparr>,
      Inr \<lparr>created_message = ''Invoice created successfully'',
           created_invoice = new_years_eve_row,
           created_client_name = ''Member'',
           created_client_email = ''member@example.com''\<rparr>)"
    using admin_billing number_20250001 january_31_after_new_years_eve
    by (simp add: post_invoice_def invoice_create_valid_def new_years_eve_invoice_def c u m y
        Let_def new_years_eve_row_def)
      (simp add: billing_db_def)
  from posted r c(2) number_20240002 show ?thesis by simp
qed

section \<open>Properties of the invoice listing\<close>

lemma mark_overdue_flags:
  "r \<in> set (mark_overdue today rows) \<Longrightarrow> \<not> (status r = Pending \<and> date_lt (due_date r) today)"
  by (auto simp: mark_overdue_def split: if_splits)

lemma get_invoices_stored_flagged:
  assumes "canAccessBilling (roles caller)"
    and "r \<in> set (invoices (fst (get_invoices ilike caller today q d)))"
  shows "\<not> (status r = Pending \<and> date_lt (due_date r) today)"
  using assms mark_overdue_flags [of r today "invoices d"]
  by (simp add: get_invoices_def Let_def)

text \<open>
  C4. The listing flags every pending invoice whose due date has passed as overdue in the
  table (\<open>get_invoices_stored_flagged\<close>), but it sends the rows it selected before that
  update. Here the one stored invoice is pending and due on 2024-02-10, the listing runs
  on 2024-03-01: the table afterwards holds it as overdue, and the row the caller receives
  still says pending.
\<close>

theorem listing_returns_rows_read_before_overdue_update:
  "get_invoices (\<lambda>s p. False) admin march_1st no_filter billing_db =
     (billing_db\<lparr>invoices := [invoice_100\<lparr>status := Overdue\<rparr>]\<rparr>,
      Inr \<lparr>listed =
             [\<lparr>row_invoice = invoice_100, row_client_name = Some ''Member'',
               row_client_email = Some ''member@example.com'', row_project_name = None\<rparr>],
           list_total = 1, list_limit = 50, list_offset = 0, hasMore = False\<rparr>) \<and>
   status invoice_100 = Pending \<and> date_lt (due_date invoice_100) march_1st"
proof -
  have u: "find_user (users billing_db) (client_id invoice_100) = Some member"
    by (simp add: find_user_def billing_db_def admin_def member_def invoice_100_def)
  have m: "name member = ''Member''" "email member = ''member@example.com''"
    by (simp_all add: member_def)
  have p: "project_id invoice_100 = None" "status invoice_100 = Pending"
    "date_lt (due_date invoice_100) march_1st"
    by (simp_all add: invoice_100_def date_lt_def march_1st_def)
  have i: "invoices billing_db = [invoice_100]"
    by (simp add: billing_db_def)
  show ?thesis
    using admin_billing
    by (simp add: get_invoices_def no_filter_def invoice_matches_def Let_def i join_invoice_def
        u m p mark_overdue_def)
qed

section \<open>Properties of the project routes\<close>

lemma post_project_rejects_end_before_start:
  assumes "project_create_valid req" "canAccessProjects (roles caller)"
    "pc_start_date req = Present s" "pc_end_date req = Present e" "date_lt e s"
  shows "post_project caller new_id now req d =
           (d, reject 400 ''End date cannot be before start date'')"
proof -
  from assms(1) obtain nm where "pc_name req = Present nm"
    by (cases "pc_name req") (auto simp: project_create_valid_def)
  with assms show ?thesis
    by (simp add: post_project_def Let_def)
qed

text \<open>
  C2. The create route refuses an end date before the start date
  (\<open>post_project_rejects_end_before_start\<close>); the update route has no such check. Here an
  administrator sends only the end date 2024-01-05 for a project that starts on 2024-01-10:
  the update is accepted and the stored project ends before it starts.
\<close>

theorem update_stores_end_before_start:
  "put_project admin 9 end_before_start project_db =
     (project_db\<lparr>projects := [ended_site_project, done_project]\<rparr>,
      Inr \<lparr>reply_message = ''Project updated successfully'',
           reply_project = ended_site_project,
           created_by_name = Some ''Member'', created_by_username = Some ''member''\<rparr>) \<and>
   end_date ended_site_project = Some \<lparr>d_year = 2024, d_month = 1, d_day = 5\<rparr> \<and>
   start_date ended_site_project = \<lparr>d_year = 2024, d_month = 1, d_day = 10\<rparr> \<and>
   date_lt \<lparr>d_year = 2024, d_month = 1, d_day = 5\<rparr> \<lparr>d_year = 2024, d_month = 1, d_day = 10\<rparr>"
proof -
  have a: "canAccessProjects (roles admin)" "privileged admin"
    by (simp_all add: canAccessProjects_def hasRole_def admin_def privileged_def)
  have f: "find_project (projects project_db) 30 = Some site_project"
    by (simp add: find_project_def project_db_def site_project_def)
  have s: "set_project_fields 9 end_before_start site_project = ended_site_project"
    by (simp add: set_project_fields_def end_before_start_def ended_site_project_def
        site_project_def)
  have u: "update_project 30 (set_project_fields 9 end_before_start) (projects project_db) =
             [ended_site_project, done_project]"
    by (simp add: update_project_def project_db_def s) (simp add: site_project_def done_project_def)
  have c: "find_user (users project_db) (created_by ended_site_project) = Some member"
    by (simp add: find_user_def project_db_def ended_site_project_def site_project_def
        admin_def member_def)
  have m: "name member = ''Member''" "username member = ''member''"
    by (simp_all add: member_def)
  have v: "project_update_valid end_before_start" "pu_id end_before_start = Present 30"
    "project_update_fields end_before_start \<noteq> 0"
    by (simp_all add: project_update_valid_def end_before_start_def project_update_fields_def)
  show ?thesis
    using a f v
    by (simp add: put_project_def Let_def s u project_reply_def c m)
      (simp add: ended_site_project_def site_project_def date_lt_def)
qed

text \<open>
  C6 (as amended). For a caller who may complete the project (a project role, and an
  administrator role or the creator), completing a project that is already completed is
  rejected with the status 400 and the body \<^verbatim>\<open>{ error: 'Project is already completed' }\<close>,
  and leaves the tables as they were. The field-validation failure of the route is answered
  with the same status 400, and the body \<^verbatim>\<open>{ error: 'Validation failed', details: [..] }\<close>:
  the two answers differ by their message and by the details array, which only the
  validation answer carries, and not by their status; the code has no separate conflict
  kind.
\<close>

theorem completing_completed_project_rejected:
  "canAccessProjects (roles caller) \<and> find_project (projects d) i = Some p \<and>
   (privileged caller \<or> created_by p = user_id caller) \<and> proj_status p = Completed \<longrightarrow>
     put_project_complete caller today now (Present i) d =
       (d, Inl \<lparr>status_code = 400, error = ''Project is already completed'',
                details = None\<rparr>) \<and>
     put_project_complete caller today now Malformed d =
       (d, Inl \<lparr>status_code = 400, error = ''Validation failed'',
                details = Some [\<lparr>location = ''params'', path = ''id'',
                                 msg = ''Invalid project ID''\<rparr>]\<rparr>)"
  by (auto simp: put_project_complete_def reject_def validation_failed_def Let_def
      project_id_errors_def check_def)

lemma find_done_project: "find_project (projects project_db) 31 = Some done_project"
  by (simp add: find_project_def project_db_def site_project_def done_project_def)

lemma member_projects: "canAccessProjects (roles member)" "\<not> privileged member"
  "user_id member = 2"
  by (simp_all add: canAccessProjects_def hasRole_def member_def privileged_def)

theorem completing_completed_project_rejected_witness:
  "canAccessProjects (roles member) \<and>
   find_project (projects project_db) 31 = Some done_project \<and>
   created_by done_project = user_id member \<and> proj_status done_project = Completed \<and>
   put_project_complete member march_1st 9 (Present 31) project_db =
     (project_db, Inl \<lparr>status_code = 400, error = ''Project is already completed'',
                       details = None\<rparr>) \<and>
   put_project_complete member march_1st 9 Malformed project_db =
     (project_db, Inl \<lparr>status_code = 400, error = ''Validation failed'',
                       details = Some [\<lparr>location = ''params'', path = ''id'',
                                        msg = ''Invalid project ID''\<rparr>]\<rparr>)"
  using completing_completed_project_rejected [of member project_db 31 done_project march_1st 9]
    find_done_project member_projects
  by (simp add: done_project_def)

theorem already_completed_shares_validation_status_counterexample:
  "snd (put_project_complete member march_1st 9 (Present 31) project_db) =
     Inl \<lparr>status_code = 400, error = ''Project is already completed'', details = None\<rparr> \<and>
   snd (put_project_complete member march_1st 9 Malformed project_db) =
     Inl \<lparr>status_code = 400, error = ''Validation failed'',
          details = Some [\<lparr>location = ''params'', path = ''id'',
                           msg = ''Invalid project ID''\<rparr>]\<rparr> \<and>
   status_code \<lparr>status_code = 400, error = ''Project is already completed'', details = None\<rparr> =
     status_code
       \<lparr>status_code = 400, error = ''Validation failed'',
        details = Some [\<lparr>location = ''params'', path = ''id'',
                         msg = ''Invalid project ID''\<rparr>]\<rparr>"
  using find_done_project member_projects
  by (simp add: put_project_complete_def reject_def validation_failed_def Let_def done_project_def
      project_id_errors_def check_def)

section \<open>Properties of the time entry routes\<close>

lemma open_entries_append:
  "open_entries u (rows @ extra) = open_entries u rows @ open_entries u extra"
  by (simp add: open_entries_def)

lemma open_entries_close:
  "length (open_entries u (map (\<lambda>e. if c e then close_entry now e else e) rows)) \<le>
     length (open_entries u rows)"
  by (induction rows) (auto simp: open_entries_def close_entry_def)

lemma open_entries_delete:
  "length (open_entries u (filter keep rows)) \<le> length (open_entries u rows)"
  by (induction rows) (auto simp: open_entries_def)

lemma clock_in_keeps_single:
  assumes "\<And>u. length (open_entries u (time_entries d)) \<le> 1"
  shows "length (open_entries u (time_entries (fst (post_clock_in caller new_id now today d)))) \<le> 1"
proof (cases "open_entries (user_id caller) (time_entries d) = []")
  case False
  with assms [of u] show ?thesis by (simp add: post_clock_in_def)
next
  case True
  show ?thesis
  proof (cases "u = user_id caller")
    case same: True
    with \<open>open_entries (user_id caller) (time_entries d) = []\<close> show ?thesis
      by (simp add: post_clock_in_def Let_def open_entries_append) (simp add: open_entries_def)
  next
    case False
    with True assms [of u] show ?thesis
      by (simp add: post_clock_in_def Let_def open_entries_append) (simp add: open_entries_def)
  qed
qed

lemma clock_out_keeps_single:
  assumes "\<And>u. length (open_entries u (time_entries d)) \<le> 1"
  shows "length (open_entries u (time_entries (fst (put_clock_out caller now d)))) \<le> 1"
proof (cases "take 1 (sort_key (\<lambda>e. - te_created_at e)
                (open_entries (user_id caller) (time_entries d)))")
  case Nil
  with assms [of u] show ?thesis by (simp add: put_clock_out_def)
next
  case (Cons entry rest)
  have "length (open_entries u
          (map (\<lambda>e. if te_id e = te_id entry then close_entry now e else e) (time_entries d))) \<le>
        length (open_entries u (time_entries d))"
    by (rule open_entries_close)
  with assms [of u] Cons show ?thesis by (simp add: put_clock_out_def Let_def)
qed

lemma delete_keeps_single:
  assumes "\<And>u. length (open_entries u (time_entries d)) \<le> 1"
  shows "length (open_entries u (time_entries (fst (delete_time_entry caller id_param d)))) \<le> 1"
proof -
  have "length (open_entries u (filter (\<lambda>e. te_id e \<noteq> i) (time_entries d))) \<le> 1" for i
    using open_entries_delete [of u "\<lambda>e. te_id e \<noteq> i" "time_entries d"] assms [of u] by simp
  with assms [of u] show ?thesis
    by (auto simp: delete_time_entry_def split: field.splits option.splits)
qed

lemma time_step_keeps_single:
  assumes "\<And>u. length (open_entries u (time_entries d)) \<le> 1"
  shows "length (open_entries u (time_entries (time_step op d))) \<le> 1"
proof (cases op)
  case (ClockIn caller new_id now today)
  show ?thesis
    unfolding ClockIn time_step.simps by (rule clock_in_keeps_single) (rule assms)
next
  case (ClockOut caller now)
  show ?thesis
    unfolding ClockOut time_step.simps by (rule clock_out_keeps_single) (rule assms)
next
  case (DeleteEntry caller id_param)
  show ?thesis
    unfolding DeleteEntry time_step.simps by (rule delete_keeps_single) (rule assms)
qed

lemma time_run_keeps_single:
  "(\<And>u. length (open_entries u (time_entries d)) \<le> 1) \<Longrightarrow>
   length (open_entries u (time_entries (time_run ops d))) \<le> 1"
proof (induction ops arbitrary: d u)
  case Nil
  then show ?case by (simp add: time_run_def)
next
  case (Cons op ops)
  have "length (open_entries v (time_entries (time_step op d))) \<le> 1" for v
    by (rule time_step_keeps_single) (rule Cons.prems)
  from Cons.IH [OF this] show ?case by (simp add: time_run_def)
qed

lemma open_entries_nonempty:
  "(open_entries u rows \<noteq> []) = (\<exists>e\<in>set rows. te_user_id e = u \<and> clock_out e = None)"
  by (auto simp: open_entries_def filter_empty_conv)

lemma clock_in_rejected_iff:
  "(post_clock_in caller new_id now today d =
      (d, reject 400 ''You are already clocked in. Please clock out first.'')) =
   (\<exists>e\<in>set (time_entries d). te_user_id e = user_id caller \<and> clock_out e = None)"
  by (simp add: post_clock_in_def Let_def reject_def open_entries_nonempty [symmetric])

lemma clock_out_rejected_iff:
  "(put_clock_out caller now d = (d, reject 400 ''You are not currently clocked in.'')) =
   (\<not> (\<exists>e\<in>set (time_entries d). te_user_id e = user_id caller \<and> clock_out e = None))"
proof -
  let ?open = "open_entries (user_id caller) (time_entries d)"
  have "(take 1 (sort_key (\<lambda>e. - te_created_at e) ?open) = []) = (?open = [])"
    by (metis length_0_conv length_sort take_eq_Nil zero_neq_one)
  then show ?thesis
    by (auto simp: put_clock_out_def Let_def reject_def open_entries_nonempty [symmetric]
        split: list.splits)
qed

text \<open>
  C5. If every user has at most one time entry with a null clock-out, then so it is after
  any run of clock-in, clock-out and delete requests, by any users; the empty table is such
  a state. Clock-in is rejected (with its 400, the table unchanged) exactly when the caller
  has an entry with a null clock-out, and clock-out is rejected exactly when the caller has
  none.
\<close>

theorem one_open_entry_per_user:
  "((\<forall>u. length (filter (\<lambda>e. te_user_id e = u \<and> clock_out e = None) (time_entries d)) \<le> 1) \<longrightarrow>
      (\<forall>u. length (filter (\<lambda>e. te_user_id e = u \<and> clock_out e = None)
                     (time_entries (time_run ops d))) \<le> 1)) \<and>
   ((post_clock_in caller new_id now today d =
       (d, reject 400 ''You are already clocked in. Please clock out first.'')) =
    (\<exists>e\<in>set (time_entries d). te_user_id e = user_id caller \<and> clock_out e = None)) \<and>
   (isl (snd (post_clock_in caller new_id now today d)) =
    (\<exists>e\<in>set (time_entries d). te_user_id e = user_id caller \<and> clock_out e = None)) \<and>
   ((put_clock_out caller now d = (d, reject 400 ''You are not currently clocked in.'')) =
    (\<not> (\<exists>e\<in>set (time_entries d). te_user_id e = user_id caller \<and> clock_out e = None))) \<and>
   (isl (snd (put_clock_out caller now d)) =
    (\<not> (\<exists>e\<in>set (time_entries d). te_user_id e = user_id caller \<and> clock_out e = None)))"
proof (intro conjI)
  show "(\<forall>u. length (filter (\<lambda>e. te_user_id e = u \<and> clock_out e = None) (time_entries d)) \<le> 1) \<longrightarrow>
      (\<forall>u. length (filter (\<lambda>e. te_user_id e = u \<and> clock_out e = None)
                     (time_entries (time_run ops d))) \<le> 1)"
    using time_run_keeps_single [of d _ ops] by (auto simp: open_entries_def)
  show "isl (snd (post_clock_in caller new_id now today d)) =
    (\<exists>e\<in>set (time_entries d). te_user_id e = user_id caller \<and> clock_out e = None)"
    by (simp add: post_clock_in_def Let_def reject_def open_entries_nonempty [symmetric])
  show "isl (snd (put_clock_out caller now d)) =
    (\<not> (\<exists>e\<in>set (time_entries d). te_user_id e = user_id caller \<and> clock_out e = None))"
    using clock_out_rejected_iff [of caller now d]
    by (auto simp: put_clock_out_def Let_def reject_def split: list.splits)
qed (rule clock_in_rejected_iff clock_out_rejected_iff)+

lemma working_day_entries:
  "time_entries (time_run working_day empty_db) =
     [\<lparr>te_id = 40, te_user_id = 2, clock_in = 1000, clock_out = Some 3000,
       te_date = march_1st, te_created_at = 1000, te_updated_at = 3000\<rparr>,
      \<lparr>te_id = 42, te_user_id = 2, clock_in = 5000, clock_out = None,
       te_date = march_1st, te_created_at = 5000, te_updated_at = 5000\<rparr>]"
  by (simp add: time_run_def working_day_def empty_db_def post_clock_in_def put_clock_out_def
      open_entries_def member_def close_entry_def Let_def)

theorem one_open_entry_per_user_witness:
  "(\<forall>u. length (filter (\<lambda>e. te_user_id e = u \<and> clock_out e = None)
                  (time_entries empty_db)) \<le> 1) \<and>
   (\<forall>u. length (filter (\<lambda>e. te_user_id e = u \<and> clock_out e = None)
                  (time_entries (time_run working_day empty_db))) \<le> 1) \<and>
   post_clock_in member 43 6000 march_1st (time_run working_day empty_db) =
     (time_run working_day empty_db,
      reject 400 ''You are already clocked in. Please clock out first.'') \<and>
   put_clock_out member 6000 empty_db =
     (empty_db, reject 400 ''You are not currently clocked in.'')"
proof -
  have start: "\<forall>u. length (filter (\<lambda>e. te_user_id e = u \<and> clock_out e = None)
                  (time_entries empty_db)) \<le> 1"
    by (simp add: empty_db_def)
  have is_open: "\<exists>e\<in>set (time_entries (time_run working_day empty_db)).
                  te_user_id e = user_id member \<and> clock_out e = None"
    by (simp add: working_day_entries member_def)
  have none_open: "\<not> (\<exists>e\<in>set (time_entries empty_db).
                  te_user_id e = user_id member \<and> clock_out e = None)"
    by (simp add: empty_db_def)
  note at_start =
    one_open_entry_per_user [where d = empty_db and ops = working_day and caller = member
      and now = 6000 and new_id = 43 and today = march_1st]
  note at_end =
    one_open_entry_per_user [where d = "time_run working_day empty_db" and ops = "[]"
      and caller = member and now = 6000 and new_id = 43 and today = march_1st]
  from at_start start have single:
    "\<forall>u. length (filter (\<lambda>e. te_user_id e = u \<and> clock_out e = None)
                  (time_entries (time_run working_day empty_db))) \<le> 1"
    by blast
  from at_start none_open have out: "put_clock_out member 6000 empty_db =
     (empty_db, reject 400 ''You are not currently clocked in.'')"
    by blast
  from at_end is_open have "post_clock_in member 43 6000 march_1st (time_run working_day empty_db) =
     (time_run working_day empty_db,
      reject 400 ''You are already clocked in. Please clock out first.'')"
    by blast
  with start single out show ?thesis by blast
qed

section \<open>Properties of the statistics routes\<close>

lemma toFixed2_0: "toFixed2 0 = ''0.00''"
  by code_simp

lemma completion_rate_no_rows: "completion_rate c 0 = None"
  by (simp add: completion_rate_def nullif_def)

lemma project_stats_no_rows:
  assumes "canAccessProjects (roles caller)"
    and "(if \<not> privileged caller
          then filter (\<lambda>p. created_by p = user_id caller) (projects d)
          else projects d) = []"
  shows "get_project_stats caller d =
           Inr \<lparr>ps_total = 0, ps_pending = 0, ps_ongoing = 0, ps_completed = 0,
                completionRate = 0\<rparr>"
  using assms
  by (simp add: get_project_stats_def Let_def count_where_def completion_rate_no_rows
      parseFloat_or_0_def split: if_splits)

lemma time_stats_no_rows:
  assumes "filter (\<lambda>e. te_user_id e = user_id caller \<and>
                        \<not> date_lt (te_date e) (date_minus today (fst (period_window p))))
             (time_entries d) = []"
  shows "get_time_stats date_minus caller today p d =
           \<lparr>period = snd (period_window p), totalEntries = 0, completedEntries = 0,
            activeEntries = 0, daysWorked = 0, totalHours = ''0.00'',
            averageHoursPerDay = 0\<rparr>"
proof -
  obtain w n where pw: "period_window p = (w, n)" by (cases "period_window p")
  with assms have rows:
    "filter (\<lambda>e. te_user_id e = user_id caller \<and> \<not> date_lt (te_date e) (date_minus today w))
       (time_entries d) = []"
    by simp
  show ?thesis
    unfolding get_time_stats_def pw Let_def prod.case rows
    by (simp add: count_where_def sql_sum_def coalesce_def toFixed2_0)
qed

lemma invoice_stats_no_rows:
  assumes "canAccessBilling (roles caller)" and "invoices d = []"
  shows "get_invoice_stats caller d =
           Inr \<lparr>inv_total = 0, inv_pending = 0, inv_paid = 0, inv_overdue = 0,
                inv_cancelled = 0, totalRevenue = 0, pendingRevenue = 0, overdueRevenue = 0,
                averageAmount = 0\<rparr>"
  using assms
  by (simp add: get_invoice_stats_def Let_def count_where_def revenue_def sql_sum_def
      sql_avg_def coalesce_def)

text \<open>
  C9. When the rows a statistics route aggregates are none (the projects the caller may
  see, the time entries of the caller in the window, the invoices), every field it returns
  is zero: the counts are 0, the sums are 0 through \<^verbatim>\<open>COALESCE\<close>, the total of hours is
  the string 0.00, and the completion rate is 0, because \<^verbatim>\<open>NULLIF\<close> makes the quotient
  \<^verbatim>\<open>NULL\<close> instead of dividing by zero and \<^verbatim>\<open>parseFloat(null) || 0\<close> is 0.
\<close>

theorem statistics_of_no_rows_are_zero:
  "(canAccessProjects (roles caller) \<and>
    (if \<not> privileged caller
     then filter (\<lambda>p. created_by p = user_id caller) (projects d)
     else projects d) = [] \<longrightarrow>
      get_project_stats caller d =
        Inr \<lparr>ps_total = 0, ps_pending = 0, ps_ongoing = 0, ps_completed = 0,
             completionRate = 0\<rparr>) \<and>
   completion_rate completed 0 = None \<and>
   parseFloat_or_0 (completion_rate completed 0) = 0 \<and>
   (filter (\<lambda>e. te_user_id e = user_id caller \<and>
                 \<not> date_lt (te_date e) (date_minus today (fst (period_window p))))
      (time_entries d) = [] \<longrightarrow>
      get_time_stats date_minus caller today p d =
        \<lparr>period = snd (period_window p), totalEntries = 0, completedEntries = 0,
         activeEntries = 0, daysWorked = 0, totalHours = ''0.00'',
         averageHoursPerDay = 0\<rparr>) \<and>
   (canAccessBilling (roles caller) \<and> invoices d = [] \<longrightarrow>
      get_invoice_stats caller d =
        Inr \<lparr>inv_total = 0, inv_pending = 0, inv_paid = 0, inv_overdue = 0,
             inv_cancelled = 0, totalRevenue = 0, pendingRevenue = 0, overdueRevenue = 0,
             averageAmount = 0\<rparr>)"
  using project_stats_no_rows [of caller d] time_stats_no_rows [of caller date_minus today p d]
    invoice_stats_no_rows [of caller d]
  by (simp add: completion_rate_no_rows parseFloat_or_0_def)

theorem statistics_of_no_rows_are_zero_witness:
  "canAccessProjects (roles admin) \<and> canAccessBilling (roles admin) \<and>
   projects empty_db = [] \<and> time_entries empty_db = [] \<and> invoices empty_db = [] \<and>
   get_project_stats admin empty_db =
     Inr \<lparr>ps_total = 0, ps_pending = 0, ps_ongoing = 0, ps_completed = 0,
          completionRate = 0\<rparr> \<and>
   get_time_stats (\<lambda>d i. d) admin march_1st (Some ''week'') empty_db =
     \<lparr>period = ''This Week'', totalEntries = 0, completedEntries = 0,
      activeEntries = 0, daysWorked = 0, totalHours = ''0.00'',
      averageHoursPerDay = 0\<rparr> \<and>
   get_invoice_stats admin empty_db =
     Inr \<lparr>inv_total = 0, inv_pending = 0, inv_paid = 0, inv_overdue = 0,
          inv_cancelled = 0, totalRevenue = 0, pendingRevenue = 0, overdueRevenue = 0,
          averageAmount = 0\<rparr>"
proof -
  have a: "canAccessProjects (roles admin)" "canAccessBilling (roles admin)" "privileged admin"
    by (simp_all add: canAccessProjects_def canAccessBilling_def hasRole_def admin_def
        privileged_def)
  have e: "projects empty_db = []" "time_entries empty_db = []" "invoices empty_db = []"
    by (simp_all add: empty_db_def)
  have w: "snd (period_window (Some ''week'')) = ''This Week''"
    by (simp add: period_window_def)
  from statistics_of_no_rows_are_zero
         [of admin empty_db 0 "\<lambda>d i. d" march_1st "Some ''week''"] a e w
  show ?thesis by simp
qed

end
